theory Spec2Isabelle
  imports Main "HOL-Library.Char_ord" "HOL-Library.List_Lexorder"
begin

section \<open>Data model (internal/model)\<close>

text \<open>
  A \<^verbatim>\<open>time.Time\<close> is the number of nanoseconds since the Unix epoch and a
  \<^verbatim>\<open>time.Duration\<close> a number of nanoseconds. Both are unbounded integers here:
  nothing below depends on the 64-bit range. Go strings are byte strings, as \<^typ>\<open>string\<close> is.
\<close>

type_synonym time = int
type_synonym duration = int

record User =
  ID :: string
  Email :: string
  PasswordHash :: string
  CreatedAt :: time

record Board =
  ID :: string
  Title :: string
  CreatedAt :: time
  UpdatedAt :: time

text \<open>The zero \<^verbatim>\<open>time.Time\<close> is January 1, year 1, 00:00 UTC.\<close>

definition time_zero :: time where
  "time_zero = - 62135596800 * 1000000000"

text \<open>\<^verbatim>\<open>model.User{}\<close>, the zero value.\<close>

definition User_zero :: User where
  "User_zero = \<lparr>User.ID = [], User.Email = [], User.PasswordHash = [],
     User.CreatedAt = time_zero\<rparr>"

section \<open>Errors\<close>

text \<open>
  Go error values. \<open>ErrUserExists\<close> and \<open>ErrNotFound\<close> are the package variables of
  \<^verbatim>\<open>repository\<close>, \<open>ErrRecordNotFound\<close> is \<^verbatim>\<open>gorm.ErrRecordNotFound\<close>,
  \<open>ErrorsNew m\<close> is an \<^verbatim>\<open>errors.New(m)\<close> made at the place of the failure, and the other
  constructors carry the message of a failure inside a library (database driver, bcrypt, jwt).
  A result \<^verbatim>\<open>(v, err)\<close> of the source is \<open>Inl err\<close> when \<^verbatim>\<open>err != nil\<close> and \<open>Inr v\<close>
  when \<^verbatim>\<open>err == nil\<close>.
\<close>

datatype error =
    ErrUserExists
  | ErrNotFound
  | ErrRecordNotFound
  | ErrorsNew string
  | DriverError string
  | BcryptError string
  | JwtError string

fun Error :: "error \<Rightarrow> string" where
  "Error ErrUserExists = ''user already exists''"
| "Error ErrNotFound = ''not found''"
| "Error ErrRecordNotFound = ''record not found''"
| "Error (ErrorsNew m) = m"
| "Error (DriverError m) = m"
| "Error (BcryptError m) = m"
| "Error (JwtError m) = m"

section \<open>The database behind the SQLite repositories\<close>

text \<open>
  The repositories reach SQLite through GORM, a library outside this repository. Its
  calls are modelled on a table held as the list of its rows (in insertion order), with
  \<open>pk\<close> reading the primary key column of a row:
  \<^item> every call takes a \<open>fault\<close>: \<open>Some m\<close> makes the driver fail with message \<open>m\<close>
    (locked file, I/O error, ...) and leaves the table as it is;
  \<^item> \<^verbatim>\<open>db.Create(&rw)\<close> inserts the row and fails when the primary key is taken;
    no other column of either table carries a constraint;
  \<^item> \<^verbatim>\<open>db.First(&rw, cond)\<close> is \<^verbatim>\<open>SELECT ... WHERE cond ORDER BY pk LIMIT 1\<close>
    and fails with \<^verbatim>\<open>gorm.ErrRecordNotFound\<close> when no row matches; SQLite compares
    text byte by byte, which is the order of \<^typ>\<open>string\<close> here;
  \<^item> \<^verbatim>\<open>db.Save(&rw)\<close> inserts when the primary key of \<open>rw\<close> is the zero value,
    otherwise writes all columns of the rows with that key, and inserts when there is none;
  \<^item> \<^verbatim>\<open>db.Delete(&row{}, "id=?", id)\<close> removes the matching rows and reports how
    many there were.
\<close>

definition gorm_Create ::
  "string option \<Rightarrow> ('r \<Rightarrow> string) \<Rightarrow> 'r list \<Rightarrow> 'r \<Rightarrow> error + 'r list" where
  "gorm_Create fault pk rows rw =
     (case fault of
        Some m \<Rightarrow> Inl (DriverError m)
      | None \<Rightarrow>
          if pk rw \<in> set (map pk rows)
          then Inl (DriverError ''UNIQUE constraint failed'')
          else Inr (rows @ [rw]))"

definition gorm_First ::
  "string option \<Rightarrow> ('r \<Rightarrow> string) \<Rightarrow> 'r list \<Rightarrow> ('r \<Rightarrow> bool) \<Rightarrow> error + 'r" where
  "gorm_First fault pk rows cond =
     (case fault of
        Some m \<Rightarrow> Inl (DriverError m)
      | None \<Rightarrow>
          (case sort_key pk (filter cond rows) of
             [] \<Rightarrow> Inl ErrRecordNotFound
           | rw # _ \<Rightarrow> Inr rw))"

definition gorm_Save ::
  "string option \<Rightarrow> ('r \<Rightarrow> string) \<Rightarrow> 'r list \<Rightarrow> 'r \<Rightarrow> error + 'r list" where
  "gorm_Save fault pk rows rw =
     (if pk rw = [] then gorm_Create fault pk rows rw
      else case fault of
        Some m \<Rightarrow> Inl (DriverError m)
      | None \<Rightarrow>
          if pk rw \<in> set (map pk rows)
          then Inr (map (\<lambda>r. if pk r = pk rw then rw else r) rows)
          else Inr (rows @ [rw]))"

text \<open>The result of \<open>gorm_Delete\<close> is the new table and \<^verbatim>\<open>RowsAffected\<close>.\<close>

definition gorm_Delete ::
  "string option \<Rightarrow> 'r list \<Rightarrow> ('r \<Rightarrow> bool) \<Rightarrow> error + ('r list \<times> nat)" where
  "gorm_Delete fault rows cond =
     (case fault of
        Some m \<Rightarrow> Inl (DriverError m)
      | None \<Rightarrow> Inr (filter (\<lambda>r. \<not> cond r) rows, length (filter cond rows)))"

section \<open>User Store (internal/repository/user.go, user_sqlite.go)\<close>

text \<open>
  \<^verbatim>\<open>generateID()\<close> and \<^verbatim>\<open>time.Now()\<close> read the world; the value each returns is an
  argument (\<open>newID\<close>, \<open>now\<close>) of the operation that calls it. The mutex of the in-memory
  repositories makes each method one atomic step, which is what a function on the
  repository state is.
\<close>

record memUserRepo =
  users :: "string \<rightharpoonup> User"
  emailIdx :: "string \<rightharpoonup> string"

definition NewMemUserRepo :: memUserRepo where
  "NewMemUserRepo = \<lparr>users = Map.empty, emailIdx = Map.empty\<rparr>"

definition memUserRepo_Create ::
  "string \<Rightarrow> time \<Rightarrow> memUserRepo \<Rightarrow> string \<Rightarrow> string \<Rightarrow> (error + User) \<times> memUserRepo" where
  "memUserRepo_Create newID now r email password =
     (case emailIdx r email of
        Some _ \<Rightarrow> (Inl ErrUserExists, r)
      | None \<Rightarrow>
          (let u = \<lparr>User.ID = newID, User.Email = email, User.PasswordHash = password,
                    User.CreatedAt = now\<rparr>
           in (Inr u, r\<lparr>users := (users r)(User.ID u \<mapsto> u),
                        emailIdx := (emailIdx r)(email \<mapsto> User.ID u)\<rparr>)))"

text \<open>Reading a Go map at a missing key gives the zero value.\<close>

definition memUserRepo_GetByEmail :: "memUserRepo \<Rightarrow> string \<Rightarrow> error + User" where
  "memUserRepo_GetByEmail r email =
     (case emailIdx r email of
        None \<Rightarrow> Inl ErrNotFound
      | Some i \<Rightarrow> Inr (case users r i of None \<Rightarrow> User_zero | Some u \<Rightarrow> u))"

definition memUserRepo_GetByID :: "memUserRepo \<Rightarrow> string \<Rightarrow> error + User" where
  "memUserRepo_GetByID r i =
     (case users r i of None \<Rightarrow> Inl ErrNotFound | Some u \<Rightarrow> Inr u)"

record userRow =
  ID :: string
  Email :: string
  PasswordHash :: string
  CreatedAt :: time

text \<open>\<open>user_rows\<close> is the table of \<^verbatim>\<open>userRow\<close> behind the \<^verbatim>\<open>db\<close> handle.\<close>

record sqliteUserRep =
  user_rows :: "userRow list"

definition userRow_toModel :: "userRow \<Rightarrow> User" where
  "userRow_toModel row =
     \<lparr>User.ID = userRow.ID row, User.Email = userRow.Email row,
      User.PasswordHash = userRow.PasswordHash row, User.CreatedAt = userRow.CreatedAt row\<rparr>"

definition sqliteUserRep_Create ::
  "string option \<Rightarrow> string \<Rightarrow> time \<Rightarrow> sqliteUserRep \<Rightarrow> string \<Rightarrow> string
     \<Rightarrow> (error + User) \<times> sqliteUserRep" where
  "sqliteUserRep_Create fault newID now r email passwordHash =
     (let rw = \<lparr>userRow.ID = newID, userRow.Email = email,
                 userRow.PasswordHash = passwordHash, userRow.CreatedAt = now\<rparr>
      in case gorm_Create fault userRow.ID (user_rows r) rw of
           Inl err \<Rightarrow> (Inl err, r)
         | Inr rows' \<Rightarrow> (Inr (userRow_toModel rw), r\<lparr>user_rows := rows'\<rparr>))"

definition sqliteUserRep_GetByEmail ::
  "string option \<Rightarrow> sqliteUserRep \<Rightarrow> string \<Rightarrow> error + User" where
  "sqliteUserRep_GetByEmail fault r email =
     (case gorm_First fault userRow.ID (user_rows r) (\<lambda>rw. userRow.Email rw = email) of
        Inl err \<Rightarrow> if err = ErrRecordNotFound then Inl ErrNotFound else Inr User_zero
      | Inr rw \<Rightarrow> Inr (userRow_toModel rw))"

definition sqliteUserRep_GetByID ::
  "string option \<Rightarrow> sqliteUserRep \<Rightarrow> string \<Rightarrow> error + User" where
  "sqliteUserRep_GetByID fault r i =
     (case gorm_First fault userRow.ID (user_rows r) (\<lambda>rw. userRow.ID rw = i) of
        Inl err \<Rightarrow> if err = ErrRecordNotFound then Inl ErrNotFound else Inl err
      | Inr rw \<Rightarrow> Inr (userRow_toModel rw))"

text \<open>
  The two implementations behind the interface \<^verbatim>\<open>UserRepository\<close>; a method call on
  the interface runs the method of the implementation it holds. \<open>env\<close> is what one
  repository method reads from the world: the identifier \<^verbatim>\<open>generateID()\<close> returns,
  the reading of \<^verbatim>\<open>time.Now()\<close>, and the fault of its first and of its second
  database call.
\<close>

record env =
  env_id :: string
  env_now :: time
  env_fault :: "string option"
  env_fault2 :: "string option"

datatype UserRepository =
    MemUserRepo memUserRepo
  | SqliteUserRep sqliteUserRep

fun UserRepository_Create ::
  "env \<Rightarrow> UserRepository \<Rightarrow> string \<Rightarrow> string \<Rightarrow> (error + User) \<times> UserRepository" where
  "UserRepository_Create e (MemUserRepo r) email passwordHash =
     (case memUserRepo_Create (env_id e) (env_now e) r email passwordHash of
        (res, r') \<Rightarrow> (res, MemUserRepo r'))"
| "UserRepository_Create e (SqliteUserRep r) email passwordHash =
     (case sqliteUserRep_Create (env_fault e) (env_id e) (env_now e) r email passwordHash of
        (res, r') \<Rightarrow> (res, SqliteUserRep r'))"

fun UserRepository_GetByEmail :: "env \<Rightarrow> UserRepository \<Rightarrow> string \<Rightarrow> error + User" where
  "UserRepository_GetByEmail e (MemUserRepo r) email = memUserRepo_GetByEmail r email"
| "UserRepository_GetByEmail e (SqliteUserRep r) email =
     sqliteUserRep_GetByEmail (env_fault e) r email"

fun UserRepository_GetByID :: "env \<Rightarrow> UserRepository \<Rightarrow> string \<Rightarrow> error + User" where
  "UserRepository_GetByID e (MemUserRepo r) i = memUserRepo_GetByID r i"
| "UserRepository_GetByID e (SqliteUserRep r) i = sqliteUserRep_GetByID (env_fault e) r i"

section \<open>Board Store (internal/repository/board.go, user_sqlite.go)\<close>

record memBoardRepo =
  boards :: "string \<rightharpoonup> Board"

definition NewMemBoardRepo :: memBoardRepo where
  "NewMemBoardRepo = \<lparr>boards = Map.empty\<rparr>"

definition memBoardRepo_Get :: "memBoardRepo \<Rightarrow> string \<Rightarrow> error + Board" where
  "memBoardRepo_Get r i =
     (case boards r i of None \<Rightarrow> Inl ErrNotFound | Some b \<Rightarrow> Inr b)"

definition memBoardRepo_Create ::
  "string \<Rightarrow> time \<Rightarrow> memBoardRepo \<Rightarrow> string \<Rightarrow> (error + Board) \<times> memBoardRepo" where
  "memBoardRepo_Create newID now r title =
     (let b = \<lparr>Board.ID = newID, Board.Title = title, Board.CreatedAt = now,
               Board.UpdatedAt = now\<rparr>
      in (Inr b, r\<lparr>boards := (boards r)(Board.ID b \<mapsto> b)\<rparr>))"

definition memBoardRepo_Update ::
  "time \<Rightarrow> memBoardRepo \<Rightarrow> string \<Rightarrow> string \<Rightarrow> (error + Board) \<times> memBoardRepo" where
  "memBoardRepo_Update now r i title =
     (case boards r i of
        None \<Rightarrow> (Inl ErrNotFound, r)
      | Some b \<Rightarrow>
          (let b' = b\<lparr>Board.Title := title, Board.UpdatedAt := now\<rparr>
           in (Inr b', r\<lparr>boards := (boards r)(i \<mapsto> b')\<rparr>)))"

text \<open>\<open>Delete\<close> returns an \<^verbatim>\<open>error\<close>: \<open>None\<close> is \<^verbatim>\<open>nil\<close>.\<close>

definition memBoardRepo_Delete ::
  "memBoardRepo \<Rightarrow> string \<Rightarrow> error option \<times> memBoardRepo" where
  "memBoardRepo_Delete r i =
     (case boards r i of
        None \<Rightarrow> (Some ErrNotFound, r)
      | Some _ \<Rightarrow> (None, r\<lparr>boards := (boards r)(i := None)\<rparr>))"

record boardRow =
  ID :: string
  Title :: string
  CreatedAt :: time
  UpdatedAt :: time

record sqliteBoardRepo =
  board_rows :: "boardRow list"

definition boardRow_toModel :: "boardRow \<Rightarrow> Board" where
  "boardRow_toModel row =
     \<lparr>Board.ID = boardRow.ID row, Board.Title = boardRow.Title row,
      Board.CreatedAt = boardRow.CreatedAt row, Board.UpdatedAt = boardRow.UpdatedAt row\<rparr>"

definition sqliteBoardRepo_Get ::
  "string option \<Rightarrow> sqliteBoardRepo \<Rightarrow> string \<Rightarrow> error + Board" where
  "sqliteBoardRepo_Get flt r i =
     (case gorm_First flt boardRow.ID (board_rows r) (\<lambda>rw. boardRow.ID rw = i) of
        Inl err \<Rightarrow> if err = ErrRecordNotFound then Inl ErrNotFound else Inl err
      | Inr rw \<Rightarrow> Inr (boardRow_toModel rw))"

definition sqliteBoardRepo_Create ::
  "string option \<Rightarrow> string \<Rightarrow> time \<Rightarrow> sqliteBoardRepo \<Rightarrow> string
     \<Rightarrow> (error + Board) \<times> sqliteBoardRepo" where
  "sqliteBoardRepo_Create flt newID now r title =
     (let rw = \<lparr>boardRow.ID = newID, boardRow.Title = title, boardRow.CreatedAt = now,
                 boardRow.UpdatedAt = now\<rparr>
      in case gorm_Create flt boardRow.ID (board_rows r) rw of
           Inl err \<Rightarrow> (Inl err, r)
         | Inr rows' \<Rightarrow> (Inr (boardRow_toModel rw), r\<lparr>board_rows := rows'\<rparr>))"

text \<open>
  On \<^verbatim>\<open>Save\<close> GORM stamps the column \<^verbatim>\<open>updated_at\<close> with the time of the call; it is
  the reading \<open>now\<close> that the method itself has just taken.
\<close>

definition sqliteBoardRepo_Update ::
  "string option \<Rightarrow> string option \<Rightarrow> time \<Rightarrow> sqliteBoardRepo \<Rightarrow> string \<Rightarrow> string
     \<Rightarrow> (error + Board) \<times> sqliteBoardRepo" where
  "sqliteBoardRepo_Update flt flt2 now r i title =
     (case gorm_First flt boardRow.ID (board_rows r) (\<lambda>rw. boardRow.ID rw = i) of
        Inl err \<Rightarrow> (if err = ErrRecordNotFound then (Inl ErrNotFound, r) else (Inl err, r))
      | Inr rw \<Rightarrow>
          (let rw' = rw\<lparr>boardRow.Title := title, boardRow.UpdatedAt := now\<rparr>
           in case gorm_Save flt2 boardRow.ID (board_rows r) rw' of
                Inl err \<Rightarrow> (Inl err, r)
              | Inr rows' \<Rightarrow> (Inr (boardRow_toModel rw'), r\<lparr>board_rows := rows'\<rparr>)))"

definition sqliteBoardRepo_Delete ::
  "string option \<Rightarrow> sqliteBoardRepo \<Rightarrow> string \<Rightarrow> error option \<times> sqliteBoardRepo" where
  "sqliteBoardRepo_Delete flt r i =
     (case gorm_Delete flt (board_rows r) (\<lambda>rw. boardRow.ID rw = i) of
        Inl err \<Rightarrow> (Some err, r)
      | Inr (rows', affected) \<Rightarrow>
          if affected = 0 then (Some ErrNotFound, r\<lparr>board_rows := rows'\<rparr>)
          else (None, r\<lparr>board_rows := rows'\<rparr>))"

datatype BoardRepository =
    MemBoardRepo memBoardRepo
  | SqliteBoardRepo sqliteBoardRepo

fun BoardRepository_Get :: "env \<Rightarrow> BoardRepository \<Rightarrow> string \<Rightarrow> error + Board" where
  "BoardRepository_Get e (MemBoardRepo r) i = memBoardRepo_Get r i"
| "BoardRepository_Get e (SqliteBoardRepo r) i = sqliteBoardRepo_Get (env_fault e) r i"

fun BoardRepository_Create ::
  "env \<Rightarrow> BoardRepository \<Rightarrow> string \<Rightarrow> (error + Board) \<times> BoardRepository" where
  "BoardRepository_Create e (MemBoardRepo r) title =
     (case memBoardRepo_Create (env_id e) (env_now e) r title of
        (res, r') \<Rightarrow> (res, MemBoardRepo r'))"
| "BoardRepository_Create e (SqliteBoardRepo r) title =
     (case sqliteBoardRepo_Create (env_fault e) (env_id e) (env_now e) r title of
        (res, r') \<Rightarrow> (res, SqliteBoardRepo r'))"

fun BoardRepository_Update ::
  "env \<Rightarrow> BoardRepository \<Rightarrow> string \<Rightarrow> string \<Rightarrow> (error + Board) \<times> BoardRepository" where
  "BoardRepository_Update e (MemBoardRepo r) i title =
     (case memBoardRepo_Update (env_now e) r i title of
        (res, r') \<Rightarrow> (res, MemBoardRepo r'))"
| "BoardRepository_Update e (SqliteBoardRepo r) i title =
     (case sqliteBoardRepo_Update (env_fault e) (env_fault2 e) (env_now e) r i title of
        (res, r') \<Rightarrow> (res, SqliteBoardRepo r'))"

fun BoardRepository_Delete ::
  "env \<Rightarrow> BoardRepository \<Rightarrow> string \<Rightarrow> error option \<times> BoardRepository" where
  "BoardRepository_Delete e (MemBoardRepo r) i =
     (case memBoardRepo_Delete r i of (res, r') \<Rightarrow> (res, MemBoardRepo r'))"
| "BoardRepository_Delete e (SqliteBoardRepo r) i =
     (case sqliteBoardRepo_Delete (env_fault e) r i of (res, r') \<Rightarrow> (res, SqliteBoardRepo r'))"

section \<open>Strings (standard library)\<close>

text \<open>
  \<^verbatim>\<open>strings.TrimSpace\<close> removes the leading and the trailing white space of a string,
  as \<^verbatim>\<open>unicode.IsSpace\<close> defines it, reading the bytes as UTF-8. \<open>unicode_space\<close>
  lists the UTF-8 encodings of the runes that are white space: tab, line feed, vertical
  tab, form feed, carriage return, space, U+0085, U+00A0, U+1680, U+2000 to U+200A,
  U+2028, U+2029, U+202F, U+205F and U+3000. A byte sequence that is not valid UTF-8
  decodes to U+FFFD, which is not white space, so trimming stops there.
\<close>

definition unicode_space :: "string list" where
  "unicode_space =
     [[CHR 0x09], [CHR 0x0A], [CHR 0x0B], [CHR 0x0C], [CHR 0x0D], [CHR 0x20],
      [CHR 0xC2, CHR 0x85], [CHR 0xC2, CHR 0xA0],
      [CHR 0xE1, CHR 0x9A, CHR 0x80],
      [CHR 0xE2, CHR 0x80, CHR 0x80], [CHR 0xE2, CHR 0x80, CHR 0x81],
      [CHR 0xE2, CHR 0x80, CHR 0x82], [CHR 0xE2, CHR 0x80, CHR 0x83],
      [CHR 0xE2, CHR 0x80, CHR 0x84], [CHR 0xE2, CHR 0x80, CHR 0x85],
      [CHR 0xE2, CHR 0x80, CHR 0x86], [CHR 0xE2, CHR 0x80, CHR 0x87],
      [CHR 0xE2, CHR 0x80, CHR 0x88], [CHR 0xE2, CHR 0x80, CHR 0x89],
      [CHR 0xE2, CHR 0x80, CHR 0x8A],
      [CHR 0xE2, CHR 0x80, CHR 0xA8], [CHR 0xE2, CHR 0x80, CHR 0xA9],
      [CHR 0xE2, CHR 0x80, CHR 0xAF],
      [CHR 0xE2, CHR 0x81, CHR 0x9F],
      [CHR 0xE3, CHR 0x80, CHR 0x80]]"

text \<open>
  The width in bytes of the white-space rune a string starts with, or ends with; 0 when
  its first, or last, rune is not white space (or the string is empty).
\<close>

definition leadingSpace :: "string \<Rightarrow> nat" where
  "leadingSpace s =
     (case find (\<lambda>w. take (length w) s = w) unicode_space of
        None \<Rightarrow> 0
      | Some w \<Rightarrow> length w)"

definition trailingSpace :: "string \<Rightarrow> nat" where
  "trailingSpace s =
     (case find (\<lambda>w. drop (length s - length w) s = w) unicode_space of
        None \<Rightarrow> 0
      | Some w \<Rightarrow> length w)"

function trimLeftSpace :: "string \<Rightarrow> string" where
  "trimLeftSpace s =
     (if leadingSpace s = 0 then s else trimLeftSpace (drop (leadingSpace s) s))"
  by pat_completeness auto
termination
proof (relation "measure length")
  show "wf (measure length)" by simp
next
  fix s :: string
  assume a: "leadingSpace s \<noteq> 0"
  have "s \<noteq> []"
  proof
    assume "s = []"
    then have "leadingSpace s = 0"
      by (simp add: leadingSpace_def unicode_space_def)
    with a show False by simp
  qed
  with a show "(drop (leadingSpace s) s, s) \<in> measure length" by simp
qed

function trimRightSpace :: "string \<Rightarrow> string" where
  "trimRightSpace s =
     (if trailingSpace s = 0 then s
      else trimRightSpace (take (length s - trailingSpace s) s))"
  by pat_completeness auto
termination
proof (relation "measure length")
  show "wf (measure length)" by simp
next
  fix s :: string
  assume a: "trailingSpace s \<noteq> 0"
  have "s \<noteq> []"
  proof
    assume "s = []"
    then have "trailingSpace s = 0"
      by (simp add: trailingSpace_def unicode_space_def)
    with a show False by simp
  qed
  with a show "(take (length s - trailingSpace s) s, s) \<in> measure length" by simp
qed

declare trimLeftSpace.simps [simp del] trimRightSpace.simps [simp del]

definition strings_TrimSpace :: "string \<Rightarrow> string" where
  "strings_TrimSpace s = trimRightSpace (trimLeftSpace s)"

definition strings_HasPrefix :: "string \<Rightarrow> string \<Rightarrow> bool" where
  "strings_HasPrefix s p \<longleftrightarrow> take (length p) s = p"

definition strings_TrimPrefix :: "string \<Rightarrow> string \<Rightarrow> string" where
  "strings_TrimPrefix s p = (if strings_HasPrefix s p then drop (length p) s else s)"

text \<open>
  \<^verbatim>\<open>strings.ToLower\<close> maps A to Z to a to z when every byte of the string is ASCII, and
  otherwise maps \<^verbatim>\<open>unicode.ToLower\<close> over the runes of the string. The Unicode case
  tables are not modelled: that branch is the argument \<open>unicodeLower\<close>.
\<close>

definition asciiLower :: "char \<Rightarrow> char" where
  "asciiLower c =
     (if CHR ''A'' \<le> c \<and> c \<le> CHR ''Z'' then char_of (of_char c + (32 :: nat)) else c)"

definition strings_ToLower :: "(string \<Rightarrow> string) \<Rightarrow> string \<Rightarrow> string" where
  "strings_ToLower unicodeLower s =
     (if list_all (\<lambda>c. c < CHR 0x80) s then map asciiLower s else unicodeLower s)"

section \<open>Board Service (internal/service)\<close>

record boardService =
  repo :: BoardRepository

definition boardService_GetBoard :: "env \<Rightarrow> boardService \<Rightarrow> string \<Rightarrow> error + Board" where
  "boardService_GetBoard e s i = BoardRepository_Get e (repo s) i"

definition boardService_CreateBoard ::
  "env \<Rightarrow> boardService \<Rightarrow> string \<Rightarrow> (error + Board) \<times> boardService" where
  "boardService_CreateBoard e s title0 =
     (let title = strings_TrimSpace title0
      in if title = [] then (Inl (ErrorsNew ''title required''), s)
         else case BoardRepository_Create e (repo s) title of
                (res, r') \<Rightarrow> (res, s\<lparr>repo := r'\<rparr>))"

definition boardService_UpdateBoard ::
  "env \<Rightarrow> boardService \<Rightarrow> string \<Rightarrow> string \<Rightarrow> (error + Board) \<times> boardService" where
  "boardService_UpdateBoard e s i title0 =
     (let title = strings_TrimSpace title0
      in if title = [] then (Inl (ErrorsNew ''title required''), s)
         else case BoardRepository_Update e (repo s) i title of
                (res, r') \<Rightarrow> (res, s\<lparr>repo := r'\<rparr>))"

definition boardService_DeleteBoard ::
  "env \<Rightarrow> boardService \<Rightarrow> string \<Rightarrow> error option \<times> boardService" where
  "boardService_DeleteBoard e s i =
     (case BoardRepository_Delete e (repo s) i of (res, r') \<Rightarrow> (res, s\<lparr>repo := r'\<rparr>))"

section \<open>Board handlers (internal/http/board_handler.go)\<close>

text \<open>
  A response is the HTTP status and the JSON body: \<open>ErrorBody m\<close> is
  \<^verbatim>\<open>gin.H{"error": m}\<close>, \<open>BoardData b\<close> is \<^verbatim>\<open>gin.H{"data": b}\<close>, and
  \<open>AuthData i email created token\<close> is
  \<^verbatim>\<open>gin.H{"data": gin.H{"user": gin.H{"id": i, "email": email, "createdAt": created}, "token": token}}\<close>. The handler reads the
  path parameter \<open>i\<close> and the outcome \<open>bind\<close> of \<^verbatim>\<open>c.ShouldBindJSON(&req)\<close>: the error,
  or the field \<^verbatim>\<open>req.Title\<close>.
\<close>

datatype body =
    ErrorBody string
  | BoardData Board
  | AuthData string string time string
  | NoBody

type_synonym response = "nat \<times> body"

record BoardHandler =
  svc :: boardService

definition BoardHandler_create ::
  "env \<Rightarrow> BoardHandler \<Rightarrow> error + string \<Rightarrow> response \<times> BoardHandler" where
  "BoardHandler_create e h bind =
     (case bind of
        Inl _ \<Rightarrow> ((400, ErrorBody ''invalid body''), h)
      | Inr title \<Rightarrow>
          (case boardService_CreateBoard e (svc h) title of
             (Inl err, s') \<Rightarrow> ((400, ErrorBody (Error err)), h\<lparr>svc := s'\<rparr>)
           | (Inr b, s') \<Rightarrow> ((201, BoardData b), h\<lparr>svc := s'\<rparr>)))"

definition BoardHandler_get :: "env \<Rightarrow> BoardHandler \<Rightarrow> string \<Rightarrow> response" where
  "BoardHandler_get e h i =
     (case boardService_GetBoard e (svc h) i of
        Inl err \<Rightarrow> (404, ErrorBody ''not found'')
      | Inr b \<Rightarrow> (200, BoardData b))"

definition BoardHandler_update ::
  "env \<Rightarrow> BoardHandler \<Rightarrow> string \<Rightarrow> error + string \<Rightarrow> response \<times> BoardHandler" where
  "BoardHandler_update e h i bind =
     (case bind of
        Inl _ \<Rightarrow> ((400, ErrorBody ''invalid body''), h)
      | Inr title \<Rightarrow>
          (case boardService_UpdateBoard e (svc h) i title of
             (Inl err, s') \<Rightarrow> ((400, ErrorBody (Error err)), h\<lparr>svc := s'\<rparr>)
           | (Inr b, s') \<Rightarrow> ((200, BoardData b), h\<lparr>svc := s'\<rparr>)))"

definition BoardHandler_delete ::
  "env \<Rightarrow> BoardHandler \<Rightarrow> string \<Rightarrow> response \<times> BoardHandler" where
  "BoardHandler_delete e h i =
     (case boardService_DeleteBoard e (svc h) i of
        (Some err, s') \<Rightarrow> ((404, ErrorBody (Error err)), h\<lparr>svc := s'\<rparr>)
      | (None, s') \<Rightarrow> ((204, NoBody), h\<lparr>svc := s'\<rparr>))"

section \<open>Libraries of the authentication path\<close>

text \<open>
  \<^verbatim>\<open>customClaims\<close> (and \<^verbatim>\<open>middleware.CustomClaims\<close>, the same structure): the field
  \<^verbatim>\<open>Email\<close> and the embedded \<^verbatim>\<open>jwt.RegisteredClaims\<close>, whose dates are pointers
  (\<open>None\<close> is \<^verbatim>\<open>nil\<close>).
\<close>

record customClaims =
  Email :: string
  Issuer :: string
  Subject :: string
  Audience :: "string list"
  ExpiresAt :: "time option"
  NotBefore :: "time option"
  IssuedAt :: "time option"
  ID :: string

text \<open>
  What the compact form \<^verbatim>\<open>header.payload.signature\<close> of a token decodes to: the
  \<^verbatim>\<open>alg\<close> of the header, the claims of the payload, the signing string (the text
  \<^verbatim>\<open>header.payload\<close> as it stands in the token) and the bytes of the signature.
\<close>

record jwt_segments =
  seg_alg :: string
  seg_claims :: customClaims
  seg_signing :: string
  seg_signature :: string

text \<open>
  The functions of bcrypt, of the jwt library and of the Unicode tables that are taken as
  given. Nothing is assumed of them here; a theorem that needs a property of one of them
  states it as a hypothesis.
  \<^item> \<open>unicode_ToLower\<close>: \<^verbatim>\<open>strings.Map(unicode.ToLower, s)\<close>;
  \<^item> \<open>bcrypt_GenerateFromPassword salt password\<close>: the hash at the default cost, \<open>salt\<close>
    being the random bytes it draws;
  \<^item> \<open>bcrypt_CompareHashAndPassword hash password\<close>: \<open>None\<close> is \<^verbatim>\<open>nil\<close>;
  \<^item> \<open>hmac_Sum alg key message\<close>: the HMAC of the message under the hash of \<open>alg\<close>;
  \<^item> \<open>jwt_SigningString alg claims\<close>: the encoded header and payload of a new token;
  \<^item> \<open>jwt_Compact signing signature\<close>: the signing string joined with the encoded
    signature;
  \<^item> \<open>jwt_Segments raw\<close>: splitting and decoding a compact token, \<open>None\<close> when it is
    malformed.
\<close>

record lib =
  unicode_ToLower :: "string \<Rightarrow> string"
  bcrypt_GenerateFromPassword :: "string \<Rightarrow> string \<Rightarrow> error + string"
  bcrypt_CompareHashAndPassword :: "string \<Rightarrow> string \<Rightarrow> error option"
  hmac_Sum :: "string \<Rightarrow> string \<Rightarrow> string \<Rightarrow> string"
  jwt_SigningString :: "string \<Rightarrow> customClaims \<Rightarrow> string"
  jwt_Compact :: "string \<Rightarrow> string \<Rightarrow> string"
  jwt_Segments :: "string \<Rightarrow> jwt_segments option"

text \<open>
  \<^verbatim>\<open>jwt.NewNumericDate\<close> truncates a time to the precision of the library, which is
  one second.
\<close>

definition jwt_NewNumericDate :: "time \<Rightarrow> time" where
  "jwt_NewNumericDate t = t - t mod 1000000000"

text \<open>
  \<^verbatim>\<open>token.SignedString(key)\<close> for a token of \<^verbatim>\<open>jwt.NewWithClaims(method, claims)\<close>.
  With an HMAC method and a byte-slice key it does not fail.
\<close>

definition jwt_SignedString :: "lib \<Rightarrow> string \<Rightarrow> customClaims \<Rightarrow> string \<Rightarrow> error + string" where
  "jwt_SignedString l method claims key =
     (let sstr = jwt_SigningString l method claims
      in Inr (jwt_Compact l sstr (hmac_Sum l method key sstr)))"

text \<open>
  The parsed \<^verbatim>\<open>*jwt.Token\<close>. \<^verbatim>\<open>jwt.ParseWithClaims(raw, &CustomClaims{}, keyFunc)\<close>
  with the default parser, read at time \<open>now\<close>, the key function returning \<open>key\<close>:
  decode the segments; find the signing method named by \<^verbatim>\<open>alg\<close> (only the HMAC
  methods take a byte-slice key); verify the signature over the signing string; validate
  the claims, where \<^verbatim>\<open>exp\<close> must be after \<open>now\<close> and \<^verbatim>\<open>nbf\<close> not after \<open>now\<close> when
  they are present (\<^verbatim>\<open>iat\<close> is not checked by default).
\<close>

record Token =
  Method :: string
  Claims :: customClaims
  Signature :: string
  Valid :: bool

definition jwt_hmacMethods :: "string list" where
  "jwt_hmacMethods = [''HS256'', ''HS384'', ''HS512'']"

definition jwt_Validate :: "time \<Rightarrow> customClaims \<Rightarrow> error option" where
  "jwt_Validate now c =
     (if (case customClaims.ExpiresAt c of None \<Rightarrow> False | Some ex \<Rightarrow> \<not> now < ex)
      then Some (JwtError ''token has invalid claims: token is expired'')
      else if (case customClaims.NotBefore c of None \<Rightarrow> False | Some nbf \<Rightarrow> now < nbf)
      then Some (JwtError ''token has invalid claims: token is not valid yet'')
      else None)"

definition jwt_ParseWithClaims :: "lib \<Rightarrow> time \<Rightarrow> string \<Rightarrow> string \<Rightarrow> error + Token" where
  "jwt_ParseWithClaims l now raw key =
     (case jwt_Segments l raw of
        None \<Rightarrow> Inl (JwtError ''token is malformed'')
      | Some p \<Rightarrow>
          if seg_alg p \<notin> set jwt_hmacMethods
          then Inl (JwtError ''token is unverifiable'')
          else if seg_signature p \<noteq> hmac_Sum l (seg_alg p) key (seg_signing p)
          then Inl (JwtError ''token signature is invalid'')
          else (case jwt_Validate now (seg_claims p) of
                  Some err \<Rightarrow> Inl err
                | None \<Rightarrow>
                    Inr \<lparr>Method = seg_alg p, Claims = seg_claims p,
                         Signature = seg_signature p, Valid = True\<rparr>))"

text \<open>
  What a theorem about a token that is issued and then parsed asks of the library: the
  compact form of the token signed for \<open>claims\<close> under \<open>key\<close> decodes to the parts it was
  made of.
\<close>

definition jwt_decodes :: "lib \<Rightarrow> string \<Rightarrow> customClaims \<Rightarrow> string \<Rightarrow> bool" where
  "jwt_decodes l method claims key \<longleftrightarrow>
     (let sstr = jwt_SigningString l method claims;
          sig = hmac_Sum l method key sstr
      in jwt_Segments l (jwt_Compact l sstr sig) =
           Some \<lparr>seg_alg = method, seg_claims = claims, seg_signing = sstr,
                 seg_signature = sig\<rparr>)"

section \<open>Auth Service (internal/service)\<close>

record authService =
  users :: UserRepository
  jwtSecret :: string
  tokenTTL :: duration

text \<open>
  \<open>authService_claims\<close> is the claims literal that \<^verbatim>\<open>issueToken\<close> builds at time
  \<open>now\<close>; \<open>authService_issueToken\<close> signs it with HS256 under the secret of the service.
\<close>

definition authService_claims :: "time \<Rightarrow> authService \<Rightarrow> User \<Rightarrow> customClaims" where
  "authService_claims now s u =
     \<lparr>customClaims.Email = User.Email u,
      customClaims.Issuer = ''kanban_api'',
      customClaims.Subject = User.ID u,
      customClaims.Audience = [],
      customClaims.ExpiresAt = Some (jwt_NewNumericDate (now + tokenTTL s)),
      customClaims.NotBefore = None,
      customClaims.IssuedAt = Some (jwt_NewNumericDate now),
      customClaims.ID = []\<rparr>"

definition authService_issueToken :: "lib \<Rightarrow> time \<Rightarrow> authService \<Rightarrow> User \<Rightarrow> error + string" where
  "authService_issueToken l now s u =
     jwt_SignedString l ''HS256'' (authService_claims now s u) (jwtSecret s)"

text \<open>
  \<open>Register\<close> reads the world four times: the salt of bcrypt, and in the repository the
  new identifier and the time (both in \<open>e\<close>), then the time \<open>tnow\<close> in \<open>issueToken\<close>.
\<close>

definition authService_Register ::
  "lib \<Rightarrow> env \<Rightarrow> string \<Rightarrow> time \<Rightarrow> authService \<Rightarrow> string \<Rightarrow> string
     \<Rightarrow> (error + User \<times> string) \<times> authService" where
  "authService_Register l e salt tnow s email0 password =
     (let email = strings_TrimSpace (strings_ToLower (unicode_ToLower l) email0)
      in if email = [] \<or> password = []
         then (Inl (ErrorsNew ''email and password required''), s)
         else case bcrypt_GenerateFromPassword l salt password of
                Inl err \<Rightarrow> (Inl err, s)
              | Inr hash \<Rightarrow>
                  (case UserRepository_Create e (authService.users s) email hash of
                     (Inl err, r') \<Rightarrow> (Inl err, s\<lparr>authService.users := r'\<rparr>)
                   | (Inr u, r') \<Rightarrow>
                       (case authService_issueToken l tnow s u of
                          Inl err \<Rightarrow> (Inl err, s\<lparr>authService.users := r'\<rparr>)
                        | Inr tok \<Rightarrow> (Inr (u, tok), s\<lparr>authService.users := r'\<rparr>))))"

definition authService_Login ::
  "lib \<Rightarrow> env \<Rightarrow> time \<Rightarrow> authService \<Rightarrow> string \<Rightarrow> string \<Rightarrow> error + User \<times> string" where
  "authService_Login l e tnow s email0 password =
     (let email = strings_TrimSpace (strings_ToLower (unicode_ToLower l) email0)
      in case UserRepository_GetByEmail e (authService.users s) email of
           Inl err \<Rightarrow> Inl (ErrorsNew ''invalid credentials'')
         | Inr u \<Rightarrow>
             if bcrypt_CompareHashAndPassword l (User.PasswordHash u) password \<noteq> None
             then Inl (ErrorsNew ''invalid credentials'')
             else (case authService_issueToken l tnow s u of
                     Inl err \<Rightarrow> Inl err
                   | Inr tok \<Rightarrow> Inr (u, tok)))"

section \<open>Auth Middleware (internal/middleware/auth.go)\<close>

text \<open>
  The middleware either aborts the request with a response or sets \<^verbatim>\<open>userID\<close> and
  \<^verbatim>\<open>email\<close> in the context and calls the next handler. \<open>authz\<close> is the value of the
  header \<^verbatim>\<open>Authorization\<close>, empty when the request has none. The type assertion on
  \<^verbatim>\<open>tok.Claims\<close> cannot fail: the parser was given a \<^verbatim>\<open>*CustomClaims\<close>.
\<close>

datatype outcome =
    Abort response
  | Next string string

definition AuthRequired :: "lib \<Rightarrow> string \<Rightarrow> time \<Rightarrow> string \<Rightarrow> outcome" where
  "AuthRequired l secret now authz =
     (if \<not> strings_HasPrefix authz ''Bearer ''
      then Abort (401, ErrorBody ''missing bearer token'')
      else (let raw = strings_TrimPrefix authz ''Bearer ''
            in case jwt_ParseWithClaims l now raw secret of
                 Inl err \<Rightarrow> Abort (401, ErrorBody ''invalid token'')
               | Inr tok \<Rightarrow>
                   if \<not> Valid tok then Abort (401, ErrorBody ''invalid token'')
                   else Next (customClaims.Subject (Claims tok))
                             (customClaims.Email (Claims tok))))"

section \<open>Auth handlers (internal/http/auth_handler.go)\<close>

text \<open>
  \<open>bind\<close> is the outcome of \<^verbatim>\<open>c.ShouldBindJSON(&req)\<close>: the error, or the fields
  \<^verbatim>\<open>req.Email\<close> and \<^verbatim>\<open>req.Password\<close>.
\<close>

definition strings_Contains :: "string \<Rightarrow> string \<Rightarrow> bool" where
  "strings_Contains s sub \<longleftrightarrow>
     list_ex (\<lambda>i. take (length sub) (drop i s) = sub) [0 ..< Suc (length s)]"

record AuthHandler =
  svc :: authService

definition AuthHandler_register ::
  "lib \<Rightarrow> env \<Rightarrow> string \<Rightarrow> time \<Rightarrow> AuthHandler \<Rightarrow> error + string \<times> string
     \<Rightarrow> response \<times> AuthHandler" where
  "AuthHandler_register l e salt tnow h bind =
     (case bind of
        Inl _ \<Rightarrow> ((400, ErrorBody ''invalid body''), h)
      | Inr (email, password) \<Rightarrow>
          (case authService_Register l e salt tnow (AuthHandler.svc h) email password of
             (Inl err, s') \<Rightarrow>
               (let msg = Error err
                in if strings_Contains msg ''exists''
                   then ((409, ErrorBody msg), h\<lparr>AuthHandler.svc := s'\<rparr>)
                   else ((400, ErrorBody msg), h\<lparr>AuthHandler.svc := s'\<rparr>))
           | (Inr (u, token), s') \<Rightarrow>
               ((201, AuthData (User.ID u) (User.Email u) (User.CreatedAt u) token),
                h\<lparr>AuthHandler.svc := s'\<rparr>)))"

definition AuthHandler_login ::
  "lib \<Rightarrow> env \<Rightarrow> time \<Rightarrow> AuthHandler \<Rightarrow> error + string \<times> string \<Rightarrow> response" where
  "AuthHandler_login l e tnow h bind =
     (case bind of
        Inl _ \<Rightarrow> (400, ErrorBody ''invalid body'')
      | Inr (email, password) \<Rightarrow>
          (case authService_Login l e tnow (AuthHandler.svc h) email password of
             Inl err \<Rightarrow> (401, ErrorBody ''invalid credentials'')
           | Inr (u, token) \<Rightarrow>
               (200, AuthData (User.ID u) (User.Email u) (User.CreatedAt u) token)))"

section \<open>A stand-in for the libraries\<close>

text \<open>
  To run the model on concrete requests, \<open>stub_lib tab\<close> gives each library function a
  small executable stand-in, as a test double would: the hash of a password is the salt,
  a dollar sign and the password; the MAC is the method, the key and the message joined
  by slashes; a token is decoded by looking it up in the table \<open>tab\<close>.
\<close>

definition stub_lib :: "(string \<times> jwt_segments) list \<Rightarrow> lib" where
  "stub_lib tab =
     \<lparr>unicode_ToLower = (\<lambda>s. s),
      bcrypt_GenerateFromPassword =
        (\<lambda>salt password.
           if 72 < length password
           then Inl (BcryptError ''bcrypt: password length exceeds 72 bytes'')
           else Inr (salt @ ''$'' @ password)),
      bcrypt_CompareHashAndPassword =
        (\<lambda>hash password.
           if drop (length hash - Suc (length password)) hash = CHR ''$'' # password
           then None
           else Some (BcryptError
             ''crypto/bcrypt: hashedPassword is not the hash of the given password'')),
      hmac_Sum = (\<lambda>alg key message. alg @ ''/'' @ key @ ''/'' @ message),
      jwt_SigningString = (\<lambda>alg claims. alg @ ''.'' @ customClaims.Subject claims),
      jwt_Compact = (\<lambda>signing signature. signing @ ''.'' @ signature),
      jwt_Segments = map_of tab\<rparr>"

section \<open>Reachable states of the in-memory User Store\<close>

text \<open>
  The states of a \<^verbatim>\<open>memUserRepo\<close> that the program can reach: \<open>Create\<close> is its only
  method that writes. \<open>memUserRepo_inv\<close> says that the index \<open>emailIdx\<close> points at
  every stored user.
\<close>

inductive memUserRepo_reachable :: "memUserRepo \<Rightarrow> bool" where
  reachable_New: "memUserRepo_reachable NewMemUserRepo"
| reachable_Create:
    "memUserRepo_reachable r \<Longrightarrow>
     memUserRepo_Create newID now r email password = (res, r') \<Longrightarrow>
     memUserRepo_reachable r'"

definition memUserRepo_inv :: "memUserRepo \<Rightarrow> bool" where
  "memUserRepo_inv r \<longleftrightarrow>
     (\<forall>i u. memUserRepo.users r i = Some u \<longrightarrow> emailIdx r (User.Email u) = Some i)"

section \<open>Example states and requests\<close>

text \<open>
  States and readings of the world for running the model: a call at time 2000 for which
  the next identifier is \<open>b2\<close> and the database does not fail, and a SQLite Board Store
  holding one board.
\<close>

definition ex_env :: env where
  "ex_env = \<lparr>env_id = ''b2'', env_now = 2000, env_fault = None, env_fault2 = None\<rparr>"

definition ex_board :: Board where
  "ex_board = \<lparr>Board.ID = ''b1'', Board.Title = ''Sprint 1'', Board.CreatedAt = 1000,
      Board.UpdatedAt = 1000\<rparr>"

definition ex_sqliteBoards :: BoardRepository where
  "ex_sqliteBoards =
     SqliteBoardRepo \<lparr>board_rows =
       [\<lparr>boardRow.ID = ''b1'', boardRow.Title = ''Sprint 1'', boardRow.CreatedAt = 1000,
         boardRow.UpdatedAt = 1000\<rparr>]\<rparr>"

definition ex_memBoards :: BoardRepository where
  "ex_memBoards = MemBoardRepo \<lparr>boards = [''b1'' \<mapsto> ex_board]\<rparr>"

text \<open>
  A registered user whose password is \<open>secret1\<close> (hashed by \<open>stub_lib\<close> with the salt
  \<open>s1\<close>), held by an in-memory and by a SQLite User Store, and the Auth Service over each
  with the development secret and a lifetime of 24 hours.
\<close>

definition ex_user :: User where
  "ex_user = \<lparr>User.ID = ''u1'', User.Email = ''alice@example.com'',
      User.PasswordHash = ''s1$secret1'', User.CreatedAt = 1000\<rparr>"

definition ex_memUsers :: UserRepository where
  "ex_memUsers =
     MemUserRepo \<lparr>memUserRepo.users = [''u1'' \<mapsto> ex_user],
                  emailIdx = [''alice@example.com'' \<mapsto> ''u1'']\<rparr>"

definition ex_userRow :: userRow where
  "ex_userRow = \<lparr>userRow.ID = ''u1'', userRow.Email = ''alice@example.com'',
      userRow.PasswordHash = ''s1$secret1'', userRow.CreatedAt = 1000\<rparr>"

definition ex_sqliteUsers :: UserRepository where
  "ex_sqliteUsers = SqliteUserRep \<lparr>user_rows = [ex_userRow]\<rparr>"

definition ex_memAuth :: authService where
  "ex_memAuth = \<lparr>authService.users = ex_memUsers, jwtSecret = ''dev-secret'',
      tokenTTL = 86400000000000\<rparr>"

definition ex_sqliteAuth :: authService where
  "ex_sqliteAuth = \<lparr>authService.users = ex_sqliteUsers, jwtSecret = ''dev-secret'',
      tokenTTL = 86400000000000\<rparr>"

text \<open>
  A second registration with the same email and the password \<open>secret2\<close>, for which the
  world gives the identifier \<open>u2\<close> and the salt \<open>s2\<close> at time 2000, and the SQLite store
  after it.
\<close>

definition ex_env2 :: env where
  "ex_env2 = \<lparr>env_id = ''u2'', env_now = 2000, env_fault = None, env_fault2 = None\<rparr>"

definition ex_user2 :: User where
  "ex_user2 = \<lparr>User.ID = ''u2'', User.Email = ''alice@example.com'',
      User.PasswordHash = ''s2$secret2'', User.CreatedAt = 2000\<rparr>"

definition ex_sqliteAuth2 :: authService where
  "ex_sqliteAuth2 =
     \<lparr>authService.users = SqliteUserRep \<lparr>user_rows =
        [ex_userRow,
         \<lparr>userRow.ID = ''u2'', userRow.Email = ''alice@example.com'',
          userRow.PasswordHash = ''s2$secret2'', userRow.CreatedAt = 2000\<rparr>]\<rparr>,
      jwtSecret = ''dev-secret'', tokenTTL = 86400000000000\<rparr>"

text \<open>
  A service whose tokens live one second, the token it issues to \<open>ex_user\<close> at 0.7 s
  (with \<open>stub_lib\<close>), and the library whose decoder knows that token.
\<close>

definition ex_shortAuth :: authService where
  "ex_shortAuth = \<lparr>authService.users = ex_memUsers, jwtSecret = ''dev-secret'',
      tokenTTL = 1000000000\<rparr>"

definition ex_token :: string where
  "ex_token = ''HS256.u1.HS256/dev-secret/HS256.u1''"

definition ex_lib :: lib where
  "ex_lib = stub_lib
     [(ex_token,
       \<lparr>seg_alg = ''HS256'',
        seg_claims = authService_claims 700000000 ex_shortAuth ex_user,
        seg_signing = ''HS256.u1'',
        seg_signature = ''HS256/dev-secret/HS256.u1''\<rparr>)]"

definition ex_emptyAuth :: authService where
  "ex_emptyAuth = \<lparr>authService.users = MemUserRepo NewMemUserRepo,
      jwtSecret = ''dev-secret'', tokenTTL = 86400000000000\<rparr>"

text \<open>
  The same claims in a token whose header names HS512, signed under the same secret, and
  the library whose decoder knows it.
\<close>

definition ex_token512 :: string where
  "ex_token512 = ''HS512.u1.HS512/dev-secret/HS512.u1''"

definition ex_lib512 :: lib where
  "ex_lib512 = stub_lib
     [(ex_token512,
       \<lparr>seg_alg = ''HS512'',
        seg_claims = authService_claims 700000000 ex_shortAuth ex_user,
        seg_signing = ''HS512.u1'',
        seg_signature = ''HS512/dev-secret/HS512.u1''\<rparr>)]"

section \<open>Evaluating the string functions\<close>

text \<open>The equations that run the string functions on a literal.\<close>

lemmas eval_strings = strings_TrimSpace_def trimLeftSpace.simps trimRightSpace.simps
  leadingSpace_def trailingSpace_def unicode_space_def strings_ToLower_def asciiLower_def
  char_of_def bit_Suc_0_iff strings_HasPrefix_def strings_TrimPrefix_def

section \<open>Properties of the User Store\<close>

lemma sort_key_Nil_iff: "sort_key f xs = [] \<longleftrightarrow> xs = []"
  by (metis length_0_conv length_sort)

lemma gorm_First_NotFound_iff:
  "gorm_First fault pk rows cond = Inl ErrRecordNotFound
     \<longleftrightarrow> fault = None \<and> (\<forall>rw \<in> set rows. \<not> cond rw)"
proof (cases fault)
  case (Some m)
  then show ?thesis by (simp add: gorm_First_def)
next
  case None
  have "gorm_First None pk rows cond = Inl ErrRecordNotFound
          \<longleftrightarrow> sort_key pk (filter cond rows) = []"
    by (simp add: gorm_First_def split: list.splits)
  with None show ?thesis
    by (simp add: sort_key_Nil_iff filter_empty_conv)
qed

lemma gorm_First_fault: "gorm_First (Some m) pk rows cond = Inl (DriverError m)"
  by (simp add: gorm_First_def)

lemma gorm_First_cases:
  "gorm_First fault pk rows cond = Inl ErrRecordNotFound
   \<or> (\<exists>m. fault = Some m \<and> gorm_First fault pk rows cond = Inl (DriverError m))
   \<or> (\<exists>rw \<in> set rows. cond rw \<and> gorm_First fault pk rows cond = Inr rw)"
proof (cases fault)
  case (Some m)
  then show ?thesis by (simp add: gorm_First_fault)
next
  case None
  show ?thesis
  proof (cases "sort_key pk (filter cond rows)")
    case Nil
    with None show ?thesis by (simp add: gorm_First_def)
  next
    case (Cons rw rest)
    then have "rw \<in> set (sort_key pk (filter cond rows))" by simp
    then have "rw \<in> set rows \<and> cond rw" by simp
    with None Cons show ?thesis by (auto simp: gorm_First_def)
  qed
qed

text \<open>
  C9. The SQLite \<open>GetByEmail\<close> answers \<open>ErrNotFound\<close> exactly when the query ran and no
  row has the email; when the query itself fails with any other database error, it
  returns the zero-value user with a nil error, so the failure reads as a success.
\<close>

theorem sqliteUserRep_GetByEmail_swallows_db_error:
  "sqliteUserRep_GetByEmail (Some m) r email = Inr User_zero \<and>
   (sqliteUserRep_GetByEmail fault r email = Inl err
      \<longleftrightarrow> err = ErrNotFound \<and> fault = None
          \<and> (\<forall>rw \<in> set (user_rows r). userRow.Email rw \<noteq> email))"
proof
  show "sqliteUserRep_GetByEmail (Some m) r email = Inr User_zero"
    by (simp add: sqliteUserRep_GetByEmail_def gorm_First_fault)
next
  let ?q = "gorm_First fault userRow.ID (user_rows r) (\<lambda>rw. userRow.Email rw = email)"
  show "sqliteUserRep_GetByEmail fault r email = Inl err
      \<longleftrightarrow> err = ErrNotFound \<and> fault = None
          \<and> (\<forall>rw \<in> set (user_rows r). userRow.Email rw \<noteq> email)"
  proof
    assume a: "sqliteUserRep_GetByEmail fault r email = Inl err"
    then have "?q = Inl ErrRecordNotFound \<and> err = ErrNotFound"
      by (auto simp: sqliteUserRep_GetByEmail_def split: sum.splits if_splits)
    then show "err = ErrNotFound \<and> fault = None
          \<and> (\<forall>rw \<in> set (user_rows r). userRow.Email rw \<noteq> email)"
      by (simp add: gorm_First_NotFound_iff)
  next
    assume "err = ErrNotFound \<and> fault = None
          \<and> (\<forall>rw \<in> set (user_rows r). userRow.Email rw \<noteq> email)"
    then have "?q = Inl ErrRecordNotFound" and "err = ErrNotFound"
      by (simp_all add: gorm_First_NotFound_iff)
    then show "sqliteUserRep_GetByEmail fault r email = Inl err"
      by (simp add: sqliteUserRep_GetByEmail_def)
  qed
qed

theorem sqliteUserRep_GetByEmail_swallows_db_error_witness:
  "sqliteUserRep_GetByEmail (Some ''database is locked'')
      \<lparr>user_rows = [\<lparr>userRow.ID = ''1'', userRow.Email = ''a@x.com'',
                      userRow.PasswordHash = ''h'', userRow.CreatedAt = 5\<rparr>]\<rparr> ''a@x.com''
     = Inr User_zero \<and>
   sqliteUserRep_GetByEmail None \<lparr>user_rows = []\<rparr> ''a@x.com'' = Inl ErrNotFound"
  using sqliteUserRep_GetByEmail_swallows_db_error
    [of "''database is locked''"
        "\<lparr>user_rows = [\<lparr>userRow.ID = ''1'', userRow.Email = ''a@x.com'',
                      userRow.PasswordHash = ''h'', userRow.CreatedAt = 5\<rparr>]\<rparr>"
        "''a@x.com''"]
    sqliteUserRep_GetByEmail_swallows_db_error
    [of m "\<lparr>user_rows = []\<rparr>" "''a@x.com''" None ErrNotFound]
  by simp

lemma memUserRepo_Create_taken:
  "emailIdx r email = Some i \<Longrightarrow>
   memUserRepo_Create newID now r email password = (Inl ErrUserExists, r)"
  by (simp add: memUserRepo_Create_def)

lemma memUserRepo_Create_free:
  "emailIdx r email = None \<Longrightarrow>
   memUserRepo_Create newID now r email password =
     (Inr \<lparr>User.ID = newID, User.Email = email, User.PasswordHash = password,
           User.CreatedAt = now\<rparr>,
      r\<lparr>memUserRepo.users := (memUserRepo.users r)(newID \<mapsto>
           \<lparr>User.ID = newID, User.Email = email, User.PasswordHash = password,
            User.CreatedAt = now\<rparr>),
        emailIdx := (emailIdx r)(email \<mapsto> newID)\<rparr>)"
  by (simp add: memUserRepo_Create_def Let_def)

lemma memUserRepo_inv_New: "memUserRepo_inv NewMemUserRepo"
  by (simp add: memUserRepo_inv_def NewMemUserRepo_def)

lemma memUserRepo_inv_Create:
  assumes "memUserRepo_inv r"
    and "memUserRepo_Create newID now r email password = (res, r')"
  shows "memUserRepo_inv r'"
proof (cases "emailIdx r email")
  case (Some i)
  with assms show ?thesis by (simp add: memUserRepo_Create_taken)
next
  case None
  have fresh: "User.Email u \<noteq> email" if "memUserRepo.users r j = Some u" for j u
    using that assms(1) None by (auto simp: memUserRepo_inv_def)
  from None assms(2) have r': "r' = r\<lparr>memUserRepo.users := (memUserRepo.users r)(newID \<mapsto>
           \<lparr>User.ID = newID, User.Email = email, User.PasswordHash = password,
            User.CreatedAt = now\<rparr>),
        emailIdx := (emailIdx r)(email \<mapsto> newID)\<rparr>"
    by (simp add: memUserRepo_Create_free)
  show ?thesis
    unfolding memUserRepo_inv_def
  proof (intro allI impI)
    fix j u
    assume a: "memUserRepo.users r' j = Some u"
    show "emailIdx r' (User.Email u) = Some j"
    proof (cases "j = newID")
      case True
      with a r' have "User.Email u = email" by auto
      with True r' show ?thesis by simp
    next
      case False
      with a r' have old: "memUserRepo.users r j = Some u" by simp
      then have "emailIdx r (User.Email u) = Some j"
        using assms(1) by (simp add: memUserRepo_inv_def)
      with fresh [OF old] r' show ?thesis by simp
    qed
  qed
qed

lemma memUserRepo_reachable_inv: "memUserRepo_reachable r \<Longrightarrow> memUserRepo_inv r"
  by (induction rule: memUserRepo_reachable.induct)
     (auto intro: memUserRepo_inv_New memUserRepo_inv_Create)

text \<open>
  In the in-memory store a second \<open>Create\<close> with a stored email fails with
  \<open>ErrUserExists\<close> and changes nothing (\<open>memUserRepo_Create_taken\<close>), and no reachable
  state holds two users with one email.
\<close>

lemma memUserRepo_reachable_unique_email:
  assumes "memUserRepo_reachable r"
    and "memUserRepo.users r i = Some u" and "memUserRepo.users r j = Some v"
    and "User.Email u = User.Email v"
  shows "i = j"
proof -
  from assms(1) have inv: "memUserRepo_inv r" by (rule memUserRepo_reachable_inv)
  from inv assms(2) have "emailIdx r (User.Email u) = Some i"
    by (simp add: memUserRepo_inv_def)
  moreover from inv assms(3) have "emailIdx r (User.Email v) = Some j"
    by (simp add: memUserRepo_inv_def)
  ultimately show ?thesis using assms(4) by simp
qed

lemma sqliteUserRep_Create_ignores_email:
  assumes "newID \<notin> set (map userRow.ID (user_rows r))"
  shows "sqliteUserRep_Create None newID now r email passwordHash =
     (Inr \<lparr>User.ID = newID, User.Email = email, User.PasswordHash = passwordHash,
           User.CreatedAt = now\<rparr>,
      r\<lparr>user_rows := user_rows r @
           [\<lparr>userRow.ID = newID, userRow.Email = email,
             userRow.PasswordHash = passwordHash, userRow.CreatedAt = now\<rparr>]\<rparr>)"
  using assms
  by (simp add: sqliteUserRep_Create_def gorm_Create_def userRow_toModel_def Let_def)

text \<open>
  C1. The claim holds of the in-memory store and fails on the SQLite store: its \<open>Create\<close>
  never looks at the email column, and the table has no constraint on it. Here the
  table holds a user with the email \<open>a@x.com\<close>; a second \<open>Create\<close> with that email
  returns a new user with a nil error, and the table then holds two users with it.
\<close>

theorem sqliteUserRep_Create_duplicate_email:
  "sqliteUserRep_Create None ''u2'' 2000
     \<lparr>user_rows = [\<lparr>userRow.ID = ''u1'', userRow.Email = ''a@x.com'',
                     userRow.PasswordHash = ''h1'', userRow.CreatedAt = 1000\<rparr>]\<rparr>
     ''a@x.com'' ''h2''
   = (Inr \<lparr>User.ID = ''u2'', User.Email = ''a@x.com'', User.PasswordHash = ''h2'',
           User.CreatedAt = 2000\<rparr>,
      \<lparr>user_rows = [\<lparr>userRow.ID = ''u1'', userRow.Email = ''a@x.com'',
                      userRow.PasswordHash = ''h1'', userRow.CreatedAt = 1000\<rparr>,
                    \<lparr>userRow.ID = ''u2'', userRow.Email = ''a@x.com'',
                      userRow.PasswordHash = ''h2'', userRow.CreatedAt = 2000\<rparr>]\<rparr>)"
  by (simp add: sqliteUserRep_Create_def gorm_Create_def userRow_toModel_def)

text \<open>
  C2. A login whose lookup fails and a login for a stored user whose password does not
  verify return the same error value, \<^verbatim>\<open>errors.New("invalid credentials")\<close>, and no
  user or token; the handler answers both with the same status and body. This holds for
  either store behind the service.
\<close>

theorem authService_Login_failures_indistinguishable:
  assumes "UserRepository_GetByEmail e1 (authService.users s)
             (strings_TrimSpace (strings_ToLower (unicode_ToLower l) email1)) = Inl err"
    and "UserRepository_GetByEmail e2 (authService.users s)
             (strings_TrimSpace (strings_ToLower (unicode_ToLower l) email2)) = Inr u"
    and "bcrypt_CompareHashAndPassword l (User.PasswordHash u) password2 \<noteq> None"
  shows "authService_Login l e1 t1 s email1 password1 = Inl (ErrorsNew ''invalid credentials'')
    \<and> authService_Login l e2 t2 s email2 password2 = Inl (ErrorsNew ''invalid credentials'')
    \<and> AuthHandler_login l e1 t1 \<lparr>AuthHandler.svc = s\<rparr> (Inr (email1, password1))
        = (401, ErrorBody ''invalid credentials'')
    \<and> AuthHandler_login l e2 t2 \<lparr>AuthHandler.svc = s\<rparr> (Inr (email2, password2))
        = (401, ErrorBody ''invalid credentials'')"
proof -
  from assms(1) have a: "authService_Login l e1 t1 s email1 password1
      = Inl (ErrorsNew ''invalid credentials'')"
    by (simp add: authService_Login_def)
  from assms(2,3) have b: "authService_Login l e2 t2 s email2 password2
      = Inl (ErrorsNew ''invalid credentials'')"
    by (simp add: authService_Login_def)
  from a b show ?thesis by (simp add: AuthHandler_login_def)
qed

theorem authService_Login_failures_indistinguishable_witness:
  "authService_Login (stub_lib []) ex_env 3000 ex_sqliteAuth '' Bob@example.com'' ''secret1''
     = Inl (ErrorsNew ''invalid credentials'')
 \<and> authService_Login (stub_lib []) ex_env 3000 ex_sqliteAuth ''Alice@Example.com '' ''wrong''
     = Inl (ErrorsNew ''invalid credentials'')
 \<and> AuthHandler_login (stub_lib []) ex_env 3000 \<lparr>AuthHandler.svc = ex_sqliteAuth\<rparr>
       (Inr ('' Bob@example.com'', ''secret1''))
     = (401, ErrorBody ''invalid credentials'')
 \<and> AuthHandler_login (stub_lib []) ex_env 3000 \<lparr>AuthHandler.svc = ex_sqliteAuth\<rparr>
       (Inr (''Alice@Example.com '', ''wrong''))
     = (401, ErrorBody ''invalid credentials'')"
proof -
  have n1: "strings_TrimSpace (strings_ToLower (unicode_ToLower (stub_lib []))
      '' Bob@example.com'') = ''bob@example.com''"
    by (simp add: eval_strings stub_lib_def)
  have n2: "strings_TrimSpace (strings_ToLower (unicode_ToLower (stub_lib []))
      ''Alice@Example.com '') = ''alice@example.com''"
    by (simp add: eval_strings stub_lib_def)
  have g1: "UserRepository_GetByEmail ex_env (authService.users ex_sqliteAuth)
      (strings_TrimSpace (strings_ToLower (unicode_ToLower (stub_lib []))
         '' Bob@example.com'')) = Inl ErrNotFound"
    unfolding n1
    by (simp add: ex_sqliteAuth_def ex_sqliteUsers_def ex_env_def ex_userRow_def
        sqliteUserRep_GetByEmail_def gorm_First_def)
  have g2: "UserRepository_GetByEmail ex_env (authService.users ex_sqliteAuth)
      (strings_TrimSpace (strings_ToLower (unicode_ToLower (stub_lib []))
         ''Alice@Example.com '')) = Inr ex_user"
    unfolding n2
    by (simp add: ex_sqliteAuth_def ex_sqliteUsers_def ex_env_def ex_userRow_def
        sqliteUserRep_GetByEmail_def gorm_First_def userRow_toModel_def ex_user_def)
  have bad: "bcrypt_CompareHashAndPassword (stub_lib []) (User.PasswordHash ex_user) ''wrong''
      \<noteq> None"
    by (simp add: stub_lib_def ex_user_def)
  from authService_Login_failures_indistinguishable [OF g1 g2 bad, of 3000 "''secret1''" 3000]
  show ?thesis by simp
qed

section \<open>Properties of the Board Store\<close>

lemma gorm_First_found:
  assumes "gorm_First flt pk rows cond = Inr rw"
  shows "rw \<in> set rows \<and> cond rw \<and> flt = None"
proof -
  from assms have none: "flt = None"
    by (cases flt) (simp_all add: gorm_First_def)
  from gorm_First_cases [of flt pk rows cond] assms none
  show ?thesis by auto
qed

lemma gorm_First_filter_cong:
  "filter cond rows = filter cond rows' \<Longrightarrow>
   gorm_First flt pk rows cond = gorm_First flt pk rows' cond"
  by (cases flt) (simp_all add: gorm_First_def)

lemma gorm_First_only:
  assumes "\<forall>x \<in> set rows. cond x \<longrightarrow> x = rw" and "\<exists>x \<in> set rows. cond x"
  shows "gorm_First None pk rows cond = Inr rw"
proof -
  from assms(2) have "gorm_First None pk rows cond \<noteq> Inl ErrRecordNotFound"
    by (simp add: gorm_First_NotFound_iff)
  with gorm_First_cases [of None pk rows cond]
  obtain x where "x \<in> set rows" "cond x" "gorm_First None pk rows cond = Inr x"
    by auto
  with assms(1) show ?thesis by auto
qed

lemma sqliteBoardRepo_Get_NotFound_iff:
  "sqliteBoardRepo_Get None r i = Inl ErrNotFound
     \<longleftrightarrow> (\<forall>rw \<in> set (board_rows r). boardRow.ID rw \<noteq> i)"
proof -
  let ?q = "gorm_First None boardRow.ID (board_rows r) (\<lambda>rw. boardRow.ID rw = i)"
  have "sqliteBoardRepo_Get None r i = Inl ErrNotFound \<longleftrightarrow> ?q = Inl ErrRecordNotFound"
    using gorm_First_cases [of None boardRow.ID "board_rows r" "\<lambda>rw. boardRow.ID rw = i"]
    by (auto simp: sqliteBoardRepo_Get_def)
  then show ?thesis by (simp add: gorm_First_NotFound_iff)
qed

lemma sqliteBoardRepo_Get_found:
  assumes "sqliteBoardRepo_Get None r i = Inr b"
  obtains rw where
    "gorm_First None boardRow.ID (board_rows r) (\<lambda>rw. boardRow.ID rw = i) = Inr rw"
    "b = boardRow_toModel rw" "boardRow.ID rw = i" "rw \<in> set (board_rows r)"
proof -
  from assms obtain rw where
    q: "gorm_First None boardRow.ID (board_rows r) (\<lambda>rw. boardRow.ID rw = i) = Inr rw"
    and b: "b = boardRow_toModel rw"
    by (auto simp: sqliteBoardRepo_Get_def split: sum.splits if_splits)
  from gorm_First_found [OF q] have "rw \<in> set (board_rows r)" "boardRow.ID rw = i"
    by simp_all
  with q b that show ?thesis by blast
qed

lemma memBoardRepo_Update_absent:
  "memBoardRepo_Get r i = Inl ErrNotFound \<Longrightarrow>
   memBoardRepo_Update now r i title = (Inl ErrNotFound, r)"
  by (auto simp: memBoardRepo_Get_def memBoardRepo_Update_def split: option.splits)

lemma memBoardRepo_Update_present:
  assumes "memBoardRepo_Get r i = Inr b"
  shows "memBoardRepo_Update now r i title =
           (Inr (b\<lparr>Board.Title := title, Board.UpdatedAt := now\<rparr>),
            r\<lparr>boards := (boards r)(i \<mapsto> b\<lparr>Board.Title := title, Board.UpdatedAt := now\<rparr>)\<rparr>)"
  using assms
  by (auto simp: memBoardRepo_Get_def memBoardRepo_Update_def Let_def split: option.splits)

lemma sqliteBoardRepo_Update_absent:
  assumes "sqliteBoardRepo_Get None r i = Inl ErrNotFound"
  shows "sqliteBoardRepo_Update None flt2 now r i title = (Inl ErrNotFound, r)"
proof -
  from assms have "\<forall>rw \<in> set (board_rows r). boardRow.ID rw \<noteq> i"
    by (simp add: sqliteBoardRepo_Get_NotFound_iff)
  then have "gorm_First None boardRow.ID (board_rows r) (\<lambda>rw. boardRow.ID rw = i)
      = Inl ErrRecordNotFound"
    by (simp add: gorm_First_NotFound_iff)
  then show ?thesis by (simp add: sqliteBoardRepo_Update_def)
qed

lemma sqliteBoardRepo_Update_present:
  assumes get: "sqliteBoardRepo_Get None r i = Inr b" and ne: "i \<noteq> []"
  obtains rw where
    "b = boardRow_toModel rw" "boardRow.ID rw = i"
    "sqliteBoardRepo_Update None None now r i title =
       (Inr (b\<lparr>Board.Title := title, Board.UpdatedAt := now\<rparr>),
        r\<lparr>board_rows :=
            map (\<lambda>x. if boardRow.ID x = i
                      then rw\<lparr>boardRow.Title := title, boardRow.UpdatedAt := now\<rparr> else x)
                (board_rows r)\<rparr>)"
proof -
  from get obtain rw where
    q: "gorm_First None boardRow.ID (board_rows r) (\<lambda>rw. boardRow.ID rw = i) = Inr rw"
    and b: "b = boardRow_toModel rw" and k: "boardRow.ID rw = i"
    and m: "rw \<in> set (board_rows r)"
    by (rule sqliteBoardRepo_Get_found)
  let ?rw' = "rw\<lparr>boardRow.Title := title, boardRow.UpdatedAt := now\<rparr>"
  from k m have "i \<in> boardRow.ID ` set (board_rows r)" by force
  with k ne have save: "gorm_Save None boardRow.ID (board_rows r) ?rw' =
      Inr (map (\<lambda>x. if boardRow.ID x = i then ?rw' else x) (board_rows r))"
    by (simp add: gorm_Save_def)
  have "boardRow_toModel ?rw' = b\<lparr>Board.Title := title, Board.UpdatedAt := now\<rparr>"
    by (simp add: b boardRow_toModel_def)
  with q save have "sqliteBoardRepo_Update None None now r i title =
       (Inr (b\<lparr>Board.Title := title, Board.UpdatedAt := now\<rparr>),
        r\<lparr>board_rows := map (\<lambda>x. if boardRow.ID x = i then ?rw' else x) (board_rows r)\<rparr>)"
    by (simp add: sqliteBoardRepo_Update_def Let_def)
  with b k that show ?thesis by blast
qed

lemma sqliteBoardRepo_Get_after_write:
  assumes k: "boardRow.ID rw' = i" and m: "\<exists>x \<in> set (board_rows r). boardRow.ID x = i"
  shows "sqliteBoardRepo_Get None
           (r\<lparr>board_rows := map (\<lambda>x. if boardRow.ID x = i then rw' else x) (board_rows r)\<rparr>) i
         = Inr (boardRow_toModel rw')"
proof -
  let ?rows' = "map (\<lambda>x. if boardRow.ID x = i then rw' else x) (board_rows r)"
  have "\<forall>x \<in> set ?rows'. boardRow.ID x = i \<longrightarrow> x = rw'"
    using k by auto
  moreover from m k have "\<exists>x \<in> set ?rows'. boardRow.ID x = i" by auto
  ultimately have "gorm_First None boardRow.ID ?rows' (\<lambda>x. boardRow.ID x = i) = Inr rw'"
    by (rule gorm_First_only)
  then show ?thesis by (simp add: sqliteBoardRepo_Get_def)
qed

lemma filter_replace_other:
  "pk rw' = i \<Longrightarrow> j \<noteq> i \<Longrightarrow>
   filter (\<lambda>x. pk x = j) (map (\<lambda>x. if pk x = i then rw' else x) rows)
     = filter (\<lambda>x. pk x = j) rows"
  by (induction rows) auto

lemma sqliteBoardRepo_Get_other:
  assumes k: "boardRow.ID rw' = i" and j: "j \<noteq> i"
  shows "sqliteBoardRepo_Get flt
           (r\<lparr>board_rows := map (\<lambda>x. if boardRow.ID x = i then rw' else x) (board_rows r)\<rparr>) j
         = sqliteBoardRepo_Get flt r j"
proof -
  have "filter (\<lambda>x. boardRow.ID x = j)
          (map (\<lambda>x. if boardRow.ID x = i then rw' else x) (board_rows r))
      = filter (\<lambda>x. boardRow.ID x = j) (board_rows r)"
    using k j by (rule filter_replace_other)
  then have "gorm_First flt boardRow.ID
        (map (\<lambda>x. if boardRow.ID x = i then rw' else x) (board_rows r))
        (\<lambda>x. boardRow.ID x = j)
      = gorm_First flt boardRow.ID (board_rows r) (\<lambda>x. boardRow.ID x = j)"
    by (rule gorm_First_filter_cong)
  then show ?thesis by (simp add: sqliteBoardRepo_Get_def)
qed

text \<open>
  C5. \<open>Update\<close> on either Board Store, when the database does not fail: an absent id
  gives \<open>ErrNotFound\<close> and leaves the store as it is; a present id returns the stored
  board with the new title and \<open>UpdatedAt\<close> set to the current time, its \<open>ID\<close> and
  \<open>CreatedAt\<close> as they were; that board is what the store then holds under the id, and
  every other id reads as before. (The present id is taken not to be the empty string,
  which no board has: ids are UUIDs, and \<^verbatim>\<open>Save\<close> would insert on an empty key.)
\<close>

theorem BoardRepository_Update_frame:
  assumes "env_fault e = None" and "env_fault2 e = None"
  shows "(BoardRepository_Get e r i = Inl ErrNotFound \<longrightarrow>
            BoardRepository_Update e r i title = (Inl ErrNotFound, r))
       \<and> (\<forall>b. BoardRepository_Get e r i = Inr b \<and> i \<noteq> [] \<longrightarrow>
            (\<exists>r'. BoardRepository_Update e r i title =
                     (Inr (b\<lparr>Board.Title := title, Board.UpdatedAt := env_now e\<rparr>), r')
                 \<and> BoardRepository_Get e r' i =
                     Inr (b\<lparr>Board.Title := title, Board.UpdatedAt := env_now e\<rparr>)
                 \<and> (\<forall>j. j \<noteq> i \<longrightarrow> BoardRepository_Get e r' j = BoardRepository_Get e r j)))"
proof (cases r)
  case (MemBoardRepo m)
  have absent: "BoardRepository_Get e r i = Inl ErrNotFound \<longrightarrow>
      BoardRepository_Update e r i title = (Inl ErrNotFound, r)"
    using MemBoardRepo by (simp add: memBoardRepo_Update_absent)
  have present: "\<exists>r'. BoardRepository_Update e r i title =
                     (Inr (b\<lparr>Board.Title := title, Board.UpdatedAt := env_now e\<rparr>), r')
                 \<and> BoardRepository_Get e r' i =
                     Inr (b\<lparr>Board.Title := title, Board.UpdatedAt := env_now e\<rparr>)
                 \<and> (\<forall>j. j \<noteq> i \<longrightarrow> BoardRepository_Get e r' j = BoardRepository_Get e r j)"
    if "BoardRepository_Get e r i = Inr b" for b
  proof -
    let ?b' = "b\<lparr>Board.Title := title, Board.UpdatedAt := env_now e\<rparr>"
    let ?m' = "m\<lparr>boards := (boards m)(i \<mapsto> ?b')\<rparr>"
    from that MemBoardRepo have "memBoardRepo_Get m i = Inr b" by simp
    then have "memBoardRepo_Update (env_now e) m i title = (Inr ?b', ?m')"
      by (rule memBoardRepo_Update_present)
    with MemBoardRepo
    have "BoardRepository_Update e r i title = (Inr ?b', MemBoardRepo ?m')" by simp
    moreover have "BoardRepository_Get e (MemBoardRepo ?m') i = Inr ?b'"
      by (simp add: memBoardRepo_Get_def)
    moreover have "\<forall>j. j \<noteq> i \<longrightarrow>
        BoardRepository_Get e (MemBoardRepo ?m') j = BoardRepository_Get e r j"
      using MemBoardRepo by (simp add: memBoardRepo_Get_def)
    ultimately show ?thesis by blast
  qed
  from absent present show ?thesis by blast
next
  case (SqliteBoardRepo d)
  have absent: "BoardRepository_Get e r i = Inl ErrNotFound \<longrightarrow>
      BoardRepository_Update e r i title = (Inl ErrNotFound, r)"
    using SqliteBoardRepo assms(1) by (simp add: sqliteBoardRepo_Update_absent)
  have present: "\<exists>r'. BoardRepository_Update e r i title =
                     (Inr (b\<lparr>Board.Title := title, Board.UpdatedAt := env_now e\<rparr>), r')
                 \<and> BoardRepository_Get e r' i =
                     Inr (b\<lparr>Board.Title := title, Board.UpdatedAt := env_now e\<rparr>)
                 \<and> (\<forall>j. j \<noteq> i \<longrightarrow> BoardRepository_Get e r' j = BoardRepository_Get e r j)"
    if "BoardRepository_Get e r i = Inr b" and ne: "i \<noteq> []" for b
  proof -
    let ?b' = "b\<lparr>Board.Title := title, Board.UpdatedAt := env_now e\<rparr>"
    from that SqliteBoardRepo assms(1) have get: "sqliteBoardRepo_Get None d i = Inr b"
      by simp
    from get ne obtain rw where
      b: "b = boardRow_toModel rw" and k: "boardRow.ID rw = i"
      and upd: "sqliteBoardRepo_Update None None (env_now e) d i title =
         (Inr ?b',
          d\<lparr>board_rows :=
              map (\<lambda>x. if boardRow.ID x = i
                        then rw\<lparr>boardRow.Title := title, boardRow.UpdatedAt := env_now e\<rparr>
                        else x)
                  (board_rows d)\<rparr>)"
      by (rule sqliteBoardRepo_Update_present)
    let ?rw' = "rw\<lparr>boardRow.Title := title, boardRow.UpdatedAt := env_now e\<rparr>"
    let ?d' = "d\<lparr>board_rows :=
              map (\<lambda>x. if boardRow.ID x = i then ?rw' else x) (board_rows d)\<rparr>"
    have k': "boardRow.ID ?rw' = i" using k by simp
    from get obtain x where "x \<in> set (board_rows d)" "boardRow.ID x = i"
      by (rule sqliteBoardRepo_Get_found)
    then have ex: "\<exists>x \<in> set (board_rows d). boardRow.ID x = i" by blast
    have toM: "boardRow_toModel ?rw' = ?b'" by (simp add: b boardRow_toModel_def)
    from upd SqliteBoardRepo assms(1,2)
    have 1: "BoardRepository_Update e r i title = (Inr ?b', SqliteBoardRepo ?d')"
      by simp
    from sqliteBoardRepo_Get_after_write [OF k' ex] toM assms(1)
    have 2: "BoardRepository_Get e (SqliteBoardRepo ?d') i = Inr ?b'"
      by simp
    have 3: "\<forall>j. j \<noteq> i \<longrightarrow>
        BoardRepository_Get e (SqliteBoardRepo ?d') j = BoardRepository_Get e r j"
    proof (intro allI impI)
      fix j assume "j \<noteq> i"
      from sqliteBoardRepo_Get_other [OF k' this, of "env_fault e" d]
      show "BoardRepository_Get e (SqliteBoardRepo ?d') j = BoardRepository_Get e r j"
        using SqliteBoardRepo by simp
    qed
    from 1 2 3 show ?thesis by blast
  qed
  from absent present show ?thesis by blast
qed

lemma sqliteBoardRepo_Delete_absent:
  assumes "sqliteBoardRepo_Get None r i = Inl ErrNotFound"
  shows "sqliteBoardRepo_Delete None r i = (Some ErrNotFound, r)"
proof -
  from assms have none: "\<forall>rw \<in> set (board_rows r). boardRow.ID rw \<noteq> i"
    by (simp add: sqliteBoardRepo_Get_NotFound_iff)
  then have "filter (\<lambda>rw. boardRow.ID rw = i) (board_rows r) = []"
    by (simp add: filter_empty_conv)
  moreover from none have "filter (\<lambda>rw. boardRow.ID rw \<noteq> i) (board_rows r) = board_rows r"
    by (simp add: filter_id_conv)
  ultimately show ?thesis
    by (simp add: sqliteBoardRepo_Delete_def gorm_Delete_def)
qed

lemma sqliteBoardRepo_Delete_done:
  assumes "sqliteBoardRepo_Delete flt r i = (None, r')"
  shows "sqliteBoardRepo_Get None r' i = Inl ErrNotFound"
proof -
  from assms have "r' = r\<lparr>board_rows := filter (\<lambda>rw. boardRow.ID rw \<noteq> i) (board_rows r)\<rparr>"
    by (auto simp: sqliteBoardRepo_Delete_def gorm_Delete_def
        split: option.splits if_splits)
  then have "\<forall>rw \<in> set (board_rows r'). boardRow.ID rw \<noteq> i" by simp
  then show ?thesis by (simp add: sqliteBoardRepo_Get_NotFound_iff)
qed

text \<open>
  C6. \<open>Delete\<close> on either Board Store, when the database does not fail: an absent id
  gives \<open>ErrNotFound\<close> (and the store stays as it is), and after a \<open>Delete\<close> that
  returned nil, \<open>Get\<close> of the same id gives \<open>ErrNotFound\<close>.
\<close>

theorem BoardRepository_Delete_then_Get:
  assumes "env_fault e = None"
  shows "(BoardRepository_Get e r i = Inl ErrNotFound \<longrightarrow>
            BoardRepository_Delete e r i = (Some ErrNotFound, r))
       \<and> (\<forall>r'. BoardRepository_Delete e r i = (None, r') \<longrightarrow>
            BoardRepository_Get e r' i = Inl ErrNotFound)"
proof (cases r)
  case (MemBoardRepo m)
  then show ?thesis
    by (auto simp: memBoardRepo_Get_def memBoardRepo_Delete_def split: option.splits)
next
  case (SqliteBoardRepo d)
  have "BoardRepository_Get e r i = Inl ErrNotFound \<longrightarrow>
      BoardRepository_Delete e r i = (Some ErrNotFound, r)"
    using SqliteBoardRepo assms by (simp add: sqliteBoardRepo_Delete_absent)
  moreover have "BoardRepository_Get e r' i = Inl ErrNotFound"
    if "BoardRepository_Delete e r i = (None, r')" for r'
  proof -
    from that SqliteBoardRepo obtain d' where
      "sqliteBoardRepo_Delete (env_fault e) d i = (None, d')" "r' = SqliteBoardRepo d'"
      by (auto split: prod.splits)
    with sqliteBoardRepo_Delete_done [of "env_fault e" d i d'] assms
    show ?thesis by simp
  qed
  ultimately show ?thesis by blast
qed

theorem BoardRepository_Update_frame_witness:
  "BoardRepository_Update ex_env ex_sqliteBoards ''b7'' ''Sprint One''
     = (Inl ErrNotFound, ex_sqliteBoards)
 \<and> fst (BoardRepository_Update ex_env ex_sqliteBoards ''b1'' ''Sprint One'')
     = Inr \<lparr>Board.ID = ''b1'', Board.Title = ''Sprint One'', Board.CreatedAt = 1000,
            Board.UpdatedAt = 2000\<rparr>
 \<and> BoardRepository_Get ex_env
       (snd (BoardRepository_Update ex_env ex_sqliteBoards ''b1'' ''Sprint One'')) ''b1''
     = Inr \<lparr>Board.ID = ''b1'', Board.Title = ''Sprint One'', Board.CreatedAt = 1000,
            Board.UpdatedAt = 2000\<rparr>
 \<and> BoardRepository_Get ex_env
       (snd (BoardRepository_Update ex_env ex_sqliteBoards ''b1'' ''Sprint One'')) ''b7''
     = Inl ErrNotFound"
proof -
  have f: "env_fault ex_env = None" "env_fault2 ex_env = None"
    by (simp_all add: ex_env_def)
  have absent: "BoardRepository_Get ex_env ex_sqliteBoards ''b7'' = Inl ErrNotFound"
    by (simp add: ex_sqliteBoards_def ex_env_def sqliteBoardRepo_Get_def gorm_First_def)
  have present: "BoardRepository_Get ex_env ex_sqliteBoards ''b1'' = Inr ex_board"
    by (simp add: ex_sqliteBoards_def ex_env_def sqliteBoardRepo_Get_def gorm_First_def
        boardRow_toModel_def ex_board_def)
  have ne: "''b7'' \<noteq> []" "''b1'' \<noteq> []" "''b7'' \<noteq> ''b1''" by simp_all
  have b': "ex_board\<lparr>Board.Title := ''Sprint One'', Board.UpdatedAt := env_now ex_env\<rparr>
      = \<lparr>Board.ID = ''b1'', Board.Title = ''Sprint One'', Board.CreatedAt = 1000,
         Board.UpdatedAt = 2000\<rparr>"
    by (simp add: ex_board_def ex_env_def)
  note A = BoardRepository_Update_frame [OF f, of ex_sqliteBoards "''b7''" "''Sprint One''",
      THEN conjunct1, rule_format, OF absent]
  from present ne(2)
  have present': "BoardRepository_Get ex_env ex_sqliteBoards ''b1'' = Inr ex_board \<and> ''b1'' \<noteq> []"
    by simp
  note P = BoardRepository_Update_frame [OF f, of ex_sqliteBoards "''b1''" "''Sprint One''",
      THEN conjunct2, rule_format, OF present']
  from P obtain r' where
    u: "BoardRepository_Update ex_env ex_sqliteBoards ''b1'' ''Sprint One'' =
          (Inr (ex_board\<lparr>Board.Title := ''Sprint One'', Board.UpdatedAt := env_now ex_env\<rparr>), r')"
    and g: "BoardRepository_Get ex_env r' ''b1'' =
          Inr (ex_board\<lparr>Board.Title := ''Sprint One'', Board.UpdatedAt := env_now ex_env\<rparr>)"
    and o: "\<forall>j. j \<noteq> ''b1'' \<longrightarrow>
          BoardRepository_Get ex_env r' j = BoardRepository_Get ex_env ex_sqliteBoards j"
    by blast
  from o [rule_format, OF ne(3)] have "BoardRepository_Get ex_env r' ''b7''
      = BoardRepository_Get ex_env ex_sqliteBoards ''b7''" .
  with absent have o7: "BoardRepository_Get ex_env r' ''b7'' = Inl ErrNotFound" by simp
  from A u g o7 b' show ?thesis by simp
qed

theorem BoardRepository_Delete_then_Get_witness:
  "BoardRepository_Delete ex_env ex_sqliteBoards ''b7'' = (Some ErrNotFound, ex_sqliteBoards)
 \<and> fst (BoardRepository_Delete ex_env ex_sqliteBoards ''b1'') = None
 \<and> BoardRepository_Get ex_env (snd (BoardRepository_Delete ex_env ex_sqliteBoards ''b1''))
       ''b1''
     = Inl ErrNotFound"
proof -
  have f: "env_fault ex_env = None" by (simp add: ex_env_def)
  have absent: "BoardRepository_Get ex_env ex_sqliteBoards ''b7'' = Inl ErrNotFound"
    by (simp add: ex_sqliteBoards_def ex_env_def sqliteBoardRepo_Get_def gorm_First_def)
  have del: "BoardRepository_Delete ex_env ex_sqliteBoards ''b1''
      = (None, SqliteBoardRepo \<lparr>board_rows = []\<rparr>)"
    by (simp add: ex_sqliteBoards_def ex_env_def sqliteBoardRepo_Delete_def gorm_Delete_def)
  note A = BoardRepository_Delete_then_Get [OF f, of ex_sqliteBoards "''b7''",
      THEN conjunct1, rule_format, OF absent]
  note D = BoardRepository_Delete_then_Get [OF f, of ex_sqliteBoards "''b1''",
      THEN conjunct2, rule_format, OF del]
  from A D del show ?thesis by simp
qed

section \<open>Properties of trimming\<close>

lemma unicode_space_nonempty: "w \<in> set unicode_space \<Longrightarrow> w \<noteq> []"
  by (auto simp: unicode_space_def)

lemma leadingSpace_pos:
  assumes "leadingSpace s \<noteq> 0"
  obtains w where "w \<in> set unicode_space" "length w = leadingSpace s"
    "s = w @ drop (leadingSpace s) s"
proof -
  from assms obtain w where f: "find (\<lambda>w. take (length w) s = w) unicode_space = Some w"
    by (auto simp: leadingSpace_def split: option.splits)
  then have w: "w \<in> set unicode_space" and t: "take (length w) s = w"
    by (auto simp: find_Some_iff)
  from f have l: "leadingSpace s = length w" by (simp add: leadingSpace_def)
  have "s = take (length w) s @ drop (length w) s" by simp
  with t l have "s = w @ drop (leadingSpace s) s" by simp
  with w l that show ?thesis by simp
qed

lemma leadingSpace_zero_iff:
  "leadingSpace s = 0 \<longleftrightarrow> (\<forall>w \<in> set unicode_space. take (length w) s \<noteq> w)"
proof
  assume z: "leadingSpace s = 0"
  have "find (\<lambda>w. take (length w) s = w) unicode_space = None"
  proof (cases "find (\<lambda>w. take (length w) s = w) unicode_space")
    case None
    then show ?thesis .
  next
    case (Some w)
    then have "w \<in> set unicode_space" by (auto simp: find_Some_iff)
    then have "w \<noteq> []" by (rule unicode_space_nonempty)
    with Some z show ?thesis by (simp add: leadingSpace_def)
  qed
  then show "\<forall>w \<in> set unicode_space. take (length w) s \<noteq> w"
    by (simp add: find_None_iff)
next
  assume "\<forall>w \<in> set unicode_space. take (length w) s \<noteq> w"
  then have "find (\<lambda>w. take (length w) s = w) unicode_space = None"
    by (simp add: find_None_iff)
  then show "leadingSpace s = 0" by (simp add: leadingSpace_def)
qed

lemma trailingSpace_pos:
  assumes "trailingSpace s \<noteq> 0"
  obtains w where "w \<in> set unicode_space" "length w = trailingSpace s"
    "s = take (length s - trailingSpace s) s @ w"
proof -
  from assms obtain w where
    f: "find (\<lambda>w. drop (length s - length w) s = w) unicode_space = Some w"
    by (auto simp: trailingSpace_def split: option.splits)
  then have w: "w \<in> set unicode_space" and t: "drop (length s - length w) s = w"
    by (auto simp: find_Some_iff)
  from f have l: "trailingSpace s = length w" by (simp add: trailingSpace_def)
  have "s = take (length s - length w) s @ drop (length s - length w) s" by simp
  with t l have "s = take (length s - trailingSpace s) s @ w" by simp
  with w l that show ?thesis by simp
qed

lemma trimLeftSpace_stop: "leadingSpace s = 0 \<Longrightarrow> trimLeftSpace s = s"
  by (subst trimLeftSpace.simps) simp

lemma trimLeftSpace_step:
  "leadingSpace s \<noteq> 0 \<Longrightarrow> trimLeftSpace s = trimLeftSpace (drop (leadingSpace s) s)"
  by (subst trimLeftSpace.simps) simp

lemma trimRightSpace_stop: "trailingSpace s = 0 \<Longrightarrow> trimRightSpace s = s"
  by (subst trimRightSpace.simps) simp

lemma trimRightSpace_step:
  "trailingSpace s \<noteq> 0 \<Longrightarrow>
   trimRightSpace s = trimRightSpace (take (length s - trailingSpace s) s)"
  by (subst trimRightSpace.simps) simp

lemma trimLeftSpace_clean: "leadingSpace (trimLeftSpace s) = 0"
proof (induction s rule: trimLeftSpace.induct)
  case (1 s)
  show ?case
  proof (cases "leadingSpace s = 0")
    case True
    then show ?thesis by (simp add: trimLeftSpace_stop)
  next
    case False
    with "1.IH" show ?thesis by (simp add: trimLeftSpace_step)
  qed
qed

lemma trimRightSpace_clean: "trailingSpace (trimRightSpace s) = 0"
proof (induction s rule: trimRightSpace.induct)
  case (1 s)
  show ?case
  proof (cases "trailingSpace s = 0")
    case True
    then show ?thesis by (simp add: trimRightSpace_stop)
  next
    case False
    with "1.IH" show ?thesis by (simp add: trimRightSpace_step)
  qed
qed

lemma trimLeftSpace_decomp:
  "\<exists>ws. set ws \<subseteq> set unicode_space \<and> s = concat ws @ trimLeftSpace s"
proof (induction s rule: trimLeftSpace.induct)
  case (1 s)
  show ?case
  proof (cases "leadingSpace s = 0")
    case True
    then have "set [] \<subseteq> set unicode_space \<and> s = concat [] @ trimLeftSpace s"
      by (simp add: trimLeftSpace_stop)
    then show ?thesis by blast
  next
    case False
    then obtain w where w: "w \<in> set unicode_space"
      and s: "s = w @ drop (leadingSpace s) s"
      by (rule leadingSpace_pos)
    from "1.IH" [OF False] obtain ws where ws: "set ws \<subseteq> set unicode_space"
      and d: "drop (leadingSpace s) s = concat ws @ trimLeftSpace (drop (leadingSpace s) s)"
      by blast
    from False have t: "trimLeftSpace s = trimLeftSpace (drop (leadingSpace s) s)"
      by (rule trimLeftSpace_step)
    have "s = concat (w # ws) @ trimLeftSpace s"
    proof -
      have "s = w @ drop (leadingSpace s) s" by (rule s)
      also have "\<dots> = w @ concat ws @ trimLeftSpace (drop (leadingSpace s) s)"
        using d by simp
      also have "\<dots> = concat (w # ws) @ trimLeftSpace s" using t by simp
      finally show ?thesis .
    qed
    moreover from w ws have "set (w # ws) \<subseteq> set unicode_space" by simp
    ultimately show ?thesis by blast
  qed
qed

lemma trimRightSpace_decomp:
  "\<exists>ws. set ws \<subseteq> set unicode_space \<and> s = trimRightSpace s @ concat ws"
proof (induction s rule: trimRightSpace.induct)
  case (1 s)
  show ?case
  proof (cases "trailingSpace s = 0")
    case True
    then have "set [] \<subseteq> set unicode_space \<and> s = trimRightSpace s @ concat []"
      by (simp add: trimRightSpace_stop)
    then show ?thesis by blast
  next
    case False
    let ?p = "take (length s - trailingSpace s) s"
    from False obtain w where w: "w \<in> set unicode_space" and s: "s = ?p @ w"
      by (rule trailingSpace_pos)
    from "1.IH" [OF False] obtain ws where ws: "set ws \<subseteq> set unicode_space"
      and d: "?p = trimRightSpace ?p @ concat ws"
      by blast
    from False have t: "trimRightSpace s = trimRightSpace ?p"
      by (rule trimRightSpace_step)
    have "s = trimRightSpace s @ concat (ws @ [w])"
    proof -
      have "s = ?p @ w" by (rule s)
      also have "\<dots> = (trimRightSpace ?p @ concat ws) @ w" using d by simp
      also have "\<dots> = trimRightSpace s @ concat (ws @ [w])" using t by simp
      finally show ?thesis .
    qed
    moreover from w ws have "set (ws @ [w]) \<subseteq> set unicode_space" by simp
    ultimately show ?thesis by blast
  qed
qed

lemma trimRightSpace_prefix: "\<exists>n. trimRightSpace s = take n s"
proof (induction s rule: trimRightSpace.induct)
  case (1 s)
  show ?case
  proof (cases "trailingSpace s = 0")
    case True
    then have "trimRightSpace s = take (length s) s" by (simp add: trimRightSpace_stop)
    then show ?thesis by blast
  next
    case False
    let ?p = "take (length s - trailingSpace s) s"
    from "1.IH" [OF False] obtain n where "trimRightSpace ?p = take n ?p" by blast
    with trimRightSpace_step [OF False]
    have "trimRightSpace s = take (min n (length s - trailingSpace s)) s"
      by (simp add: min.commute)
    then show ?thesis by blast
  qed
qed

lemma leadingSpace_take:
  assumes "leadingSpace s = 0"
  shows "leadingSpace (take n s) = 0"
proof -
  have "take (length w) (take n s) \<noteq> w" if w: "w \<in> set unicode_space" for w
  proof (cases "length w \<le> n")
    case True
    then have "take (length w) (take n s) = take (length w) s" by (simp add: min_def)
    with assms w show ?thesis by (simp add: leadingSpace_zero_iff)
  next
    case False
    have "length (take (length w) (take n s)) \<le> n" by simp
    with False have "length (take (length w) (take n s)) \<noteq> length w" by linarith
    then show ?thesis by metis
  qed
  then show ?thesis by (simp add: leadingSpace_zero_iff)
qed

text \<open>
  What \<open>strings_TrimSpace\<close> returns neither starts nor ends with a white-space rune, and
  the input is that result between two runs of white-space runes.
\<close>

lemma strings_TrimSpace_clean:
  "leadingSpace (strings_TrimSpace s) = 0 \<and> trailingSpace (strings_TrimSpace s) = 0"
proof -
  obtain n where "trimRightSpace (trimLeftSpace s) = take n (trimLeftSpace s)"
    using trimRightSpace_prefix by blast
  then have "leadingSpace (strings_TrimSpace s) = 0"
    by (simp add: strings_TrimSpace_def leadingSpace_take trimLeftSpace_clean)
  then show ?thesis by (simp add: strings_TrimSpace_def trimRightSpace_clean)
qed

lemma strings_TrimSpace_decomp:
  "\<exists>pre post. set pre \<subseteq> set unicode_space \<and> set post \<subseteq> set unicode_space
      \<and> s = concat pre @ strings_TrimSpace s @ concat post"
proof -
  obtain pre where pre: "set pre \<subseteq> set unicode_space"
    and l: "s = concat pre @ trimLeftSpace s"
    using trimLeftSpace_decomp by blast
  obtain post where post: "set post \<subseteq> set unicode_space"
    and r: "trimLeftSpace s = trimRightSpace (trimLeftSpace s) @ concat post"
    using trimRightSpace_decomp by blast
  from l r have "s = concat pre @ strings_TrimSpace s @ concat post"
    by (simp add: strings_TrimSpace_def)
  with pre post show ?thesis by blast
qed

lemma strings_TrimSpace_examples:
  "strings_TrimSpace ''  My Board  '' = ''My Board''"
  "strings_TrimSpace [] = []"
  "strings_TrimSpace ''  '' = []"
  by (simp_all add: strings_TrimSpace_def trimLeftSpace.simps trimRightSpace.simps
      leadingSpace_def trailingSpace_def unicode_space_def)

section \<open>Properties of the Board Service and its handlers\<close>

lemma sqliteBoardRepo_Create_stored:
  assumes "sqliteBoardRepo_Create flt newID now r title = (Inr b, r')"
  shows "Board.Title b = title \<and> flt = None
       \<and> sqliteBoardRepo_Get None r' (Board.ID b) = Inr b"
proof -
  let ?rw = "\<lparr>boardRow.ID = newID, boardRow.Title = title, boardRow.CreatedAt = now,
               boardRow.UpdatedAt = now\<rparr>"
  from assms obtain rows' where
    c: "gorm_Create flt boardRow.ID (board_rows r) ?rw = Inr rows'"
    and b: "b = boardRow_toModel ?rw" and r': "r' = r\<lparr>board_rows := rows'\<rparr>"
    by (auto simp: sqliteBoardRepo_Create_def Let_def split: sum.splits)
  from c have flt: "flt = None" and fresh: "newID \<notin> boardRow.ID ` set (board_rows r)"
    and rows': "rows' = board_rows r @ [?rw]"
    by (auto simp: gorm_Create_def split: option.splits if_splits)
  have "\<forall>x \<in> set rows'. boardRow.ID x = newID \<longrightarrow> x = ?rw"
    using fresh rows' by auto
  moreover have "\<exists>x \<in> set rows'. boardRow.ID x = newID"
    using rows' by simp
  ultimately have "gorm_First None boardRow.ID rows' (\<lambda>x. boardRow.ID x = newID) = Inr ?rw"
    by (rule gorm_First_only)
  with b r' have "sqliteBoardRepo_Get None r' (Board.ID b) = Inr b"
    by (simp add: sqliteBoardRepo_Get_def boardRow_toModel_def)
  with b flt show ?thesis by (simp add: boardRow_toModel_def)
qed

lemma BoardRepository_Create_stored:
  assumes "BoardRepository_Create e r title = (Inr b, r')"
  shows "Board.Title b = title \<and> BoardRepository_Get e r' (Board.ID b) = Inr b"
proof (cases r)
  case (MemBoardRepo m)
  with assms show ?thesis
    by (auto simp: memBoardRepo_Create_def memBoardRepo_Get_def Let_def)
next
  case (SqliteBoardRepo d)
  with assms obtain d' where
    c: "sqliteBoardRepo_Create (env_fault e) (env_id e) (env_now e) d title = (Inr b, d')"
    and r': "r' = SqliteBoardRepo d'"
    by (auto split: prod.splits)
  from sqliteBoardRepo_Create_stored [OF c] r' show ?thesis by simp
qed

lemma sqliteBoardRepo_Update_success:
  assumes "sqliteBoardRepo_Update flt flt2 now r i title = (Inr b, r')"
  shows "Board.Title b = title \<and> flt = None \<and> sqliteBoardRepo_Get None r' i = Inr b"
proof -
  from assms obtain rw where
    q: "gorm_First flt boardRow.ID (board_rows r) (\<lambda>rw. boardRow.ID rw = i) = Inr rw"
    by (auto simp: sqliteBoardRepo_Update_def split: sum.splits if_splits)
  let ?rw' = "rw\<lparr>boardRow.Title := title, boardRow.UpdatedAt := now\<rparr>"
  from gorm_First_found [OF q]
  have m: "rw \<in> set (board_rows r)" and k: "boardRow.ID rw = i" and flt: "flt = None"
    by simp_all
  from assms q obtain rows' where
    s: "gorm_Save flt2 boardRow.ID (board_rows r) ?rw' = Inr rows'"
    and b: "b = boardRow_toModel ?rw'" and r': "r' = r\<lparr>board_rows := rows'\<rparr>"
    by (auto simp: sqliteBoardRepo_Update_def Let_def split: sum.splits)
  from m k have taken: "boardRow.ID ?rw' \<in> set (map boardRow.ID (board_rows r))"
    by force
  from s taken
  have rows': "rows' = map (\<lambda>x. if boardRow.ID x = i then ?rw' else x) (board_rows r)"
    using k
    by (auto simp: gorm_Save_def gorm_Create_def split: option.splits if_splits)
  have k': "boardRow.ID ?rw' = i" using k by simp
  from m k have ex: "\<exists>x \<in> set (board_rows r). boardRow.ID x = i" by blast
  from sqliteBoardRepo_Get_after_write [OF k' ex] rows' r' b
  have "sqliteBoardRepo_Get None r' i = Inr b" by simp
  with b flt show ?thesis by (simp add: boardRow_toModel_def)
qed

lemma BoardRepository_Update_success:
  assumes "BoardRepository_Update e r i title = (Inr b, r')"
  shows "Board.Title b = title \<and> BoardRepository_Get e r' i = Inr b"
proof (cases r)
  case (MemBoardRepo m)
  with assms show ?thesis
    by (auto simp: memBoardRepo_Update_def memBoardRepo_Get_def Let_def
        split: option.splits)
next
  case (SqliteBoardRepo d)
  with assms obtain d' where
    c: "sqliteBoardRepo_Update (env_fault e) (env_fault2 e) (env_now e) d i title = (Inr b, d')"
    and r': "r' = SqliteBoardRepo d'"
    by (auto split: prod.splits)
  from sqliteBoardRepo_Update_success [OF c] r' show ?thesis by simp
qed

lemma boardService_CreateBoard_blank:
  "strings_TrimSpace title = [] \<Longrightarrow>
   boardService_CreateBoard e s title = (Inl (ErrorsNew ''title required''), s)"
  by (simp add: boardService_CreateBoard_def)

lemma boardService_UpdateBoard_blank:
  "strings_TrimSpace title = [] \<Longrightarrow>
   boardService_UpdateBoard e s i title = (Inl (ErrorsNew ''title required''), s)"
  by (simp add: boardService_UpdateBoard_def)

lemma boardService_CreateBoard_delegates:
  "strings_TrimSpace title \<noteq> [] \<Longrightarrow>
   boardService_CreateBoard e s title =
     (case BoardRepository_Create e (repo s) (strings_TrimSpace title) of
        (res, r') \<Rightarrow> (res, s\<lparr>repo := r'\<rparr>))"
  by (simp add: boardService_CreateBoard_def)

lemma boardService_UpdateBoard_delegates:
  "strings_TrimSpace title \<noteq> [] \<Longrightarrow>
   boardService_UpdateBoard e s i title =
     (case BoardRepository_Update e (repo s) i (strings_TrimSpace title) of
        (res, r') \<Rightarrow> (res, s\<lparr>repo := r'\<rparr>))"
  by (simp add: boardService_UpdateBoard_def)

lemma boardService_CreateBoard_stored:
  assumes "boardService_CreateBoard e s title = (Inr b, s')"
  shows "Board.Title b = strings_TrimSpace title
       \<and> boardService_GetBoard e s' (Board.ID b) = Inr b"
proof -
  from assms have ne: "strings_TrimSpace title \<noteq> []"
    by (auto simp: boardService_CreateBoard_def)
  with assms obtain r' where
    c: "BoardRepository_Create e (repo s) (strings_TrimSpace title) = (Inr b, r')"
    and s': "s' = s\<lparr>repo := r'\<rparr>"
    by (auto simp: boardService_CreateBoard_delegates split: prod.splits)
  from BoardRepository_Create_stored [OF c] s' show ?thesis
    by (simp add: boardService_GetBoard_def)
qed

lemma boardService_UpdateBoard_stored:
  assumes "boardService_UpdateBoard e s i title = (Inr b, s')"
  shows "Board.Title b = strings_TrimSpace title \<and> boardService_GetBoard e s' i = Inr b"
proof -
  from assms have ne: "strings_TrimSpace title \<noteq> []"
    by (auto simp: boardService_UpdateBoard_def)
  with assms obtain r' where
    c: "BoardRepository_Update e (repo s) i (strings_TrimSpace title) = (Inr b, r')"
    and s': "s' = s\<lparr>repo := r'\<rparr>"
    by (auto simp: boardService_UpdateBoard_delegates split: prod.splits)
  from BoardRepository_Update_success [OF c] s' show ?thesis
    by (simp add: boardService_GetBoard_def)
qed

lemma boardService_CreateBoard_example:
  "fst (boardService_CreateBoard e \<lparr>repo = MemBoardRepo m\<rparr> ''  My Board  '')
     = Inr \<lparr>Board.ID = env_id e, Board.Title = ''My Board'', Board.CreatedAt = env_now e,
            Board.UpdatedAt = env_now e\<rparr>"
  by (simp add: boardService_CreateBoard_def strings_TrimSpace_examples
      memBoardRepo_Create_def Let_def)

text \<open>
  C4. \<open>CreateBoard\<close> and \<open>UpdateBoard\<close> trim the title first. When nothing is left they
  return the error \<open>title required\<close> and the service, with its store, is as before;
  otherwise they hand the trimmed title to the store, and a board they return carries
  the trimmed title and is what the store then holds under its id. The trimmed title is
  the title without the white-space runes at its two ends. The empty title and the title
  of two spaces fail; \<open>  My Board  \<close> is stored as \<open>My Board\<close>.
\<close>

theorem boardService_title_trimmed:
  "(strings_TrimSpace title = [] \<longrightarrow>
      boardService_CreateBoard e s title = (Inl (ErrorsNew ''title required''), s)
    \<and> boardService_UpdateBoard e s i title = (Inl (ErrorsNew ''title required''), s))
 \<and> (strings_TrimSpace title \<noteq> [] \<longrightarrow>
      boardService_CreateBoard e s title =
        (case BoardRepository_Create e (repo s) (strings_TrimSpace title) of
           (res, r') \<Rightarrow> (res, s\<lparr>repo := r'\<rparr>))
    \<and> boardService_UpdateBoard e s i title =
        (case BoardRepository_Update e (repo s) i (strings_TrimSpace title) of
           (res, r') \<Rightarrow> (res, s\<lparr>repo := r'\<rparr>)))
 \<and> (\<forall>b s'. boardService_CreateBoard e s title = (Inr b, s') \<longrightarrow>
      Board.Title b = strings_TrimSpace title
    \<and> boardService_GetBoard e s' (Board.ID b) = Inr b)
 \<and> (\<forall>b s'. boardService_UpdateBoard e s i title = (Inr b, s') \<longrightarrow>
      Board.Title b = strings_TrimSpace title \<and> boardService_GetBoard e s' i = Inr b)
 \<and> leadingSpace (strings_TrimSpace title) = 0
 \<and> trailingSpace (strings_TrimSpace title) = 0
 \<and> (\<exists>pre post. set pre \<subseteq> set unicode_space \<and> set post \<subseteq> set unicode_space
      \<and> title = concat pre @ strings_TrimSpace title @ concat post)
 \<and> boardService_CreateBoard e s [] = (Inl (ErrorsNew ''title required''), s)
 \<and> boardService_CreateBoard e s ''  '' = (Inl (ErrorsNew ''title required''), s)
 \<and> fst (boardService_CreateBoard e \<lparr>repo = MemBoardRepo m\<rparr> ''  My Board  '')
      = Inr \<lparr>Board.ID = env_id e, Board.Title = ''My Board'', Board.CreatedAt = env_now e,
             Board.UpdatedAt = env_now e\<rparr>"
proof (intro conjI)
  show "strings_TrimSpace title = [] \<longrightarrow>
      boardService_CreateBoard e s title = (Inl (ErrorsNew ''title required''), s)
    \<and> boardService_UpdateBoard e s i title = (Inl (ErrorsNew ''title required''), s)"
    by (simp add: boardService_CreateBoard_blank boardService_UpdateBoard_blank)
  show "strings_TrimSpace title \<noteq> [] \<longrightarrow>
      boardService_CreateBoard e s title =
        (case BoardRepository_Create e (repo s) (strings_TrimSpace title) of
           (res, r') \<Rightarrow> (res, s\<lparr>repo := r'\<rparr>))
    \<and> boardService_UpdateBoard e s i title =
        (case BoardRepository_Update e (repo s) i (strings_TrimSpace title) of
           (res, r') \<Rightarrow> (res, s\<lparr>repo := r'\<rparr>))"
    using boardService_CreateBoard_delegates boardService_UpdateBoard_delegates by blast
  show "\<forall>b s'. boardService_CreateBoard e s title = (Inr b, s') \<longrightarrow>
      Board.Title b = strings_TrimSpace title
    \<and> boardService_GetBoard e s' (Board.ID b) = Inr b"
    using boardService_CreateBoard_stored by blast
  show "\<forall>b s'. boardService_UpdateBoard e s i title = (Inr b, s') \<longrightarrow>
      Board.Title b = strings_TrimSpace title \<and> boardService_GetBoard e s' i = Inr b"
    using boardService_UpdateBoard_stored by blast
  show "leadingSpace (strings_TrimSpace title) = 0"
    by (simp add: strings_TrimSpace_clean)
  show "trailingSpace (strings_TrimSpace title) = 0"
    by (simp add: strings_TrimSpace_clean)
  show "\<exists>pre post. set pre \<subseteq> set unicode_space \<and> set post \<subseteq> set unicode_space
      \<and> title = concat pre @ strings_TrimSpace title @ concat post"
    by (rule strings_TrimSpace_decomp)
  show "boardService_CreateBoard e s [] = (Inl (ErrorsNew ''title required''), s)"
    by (simp add: boardService_CreateBoard_blank strings_TrimSpace_examples)
  show "boardService_CreateBoard e s ''  '' = (Inl (ErrorsNew ''title required''), s)"
    by (simp add: boardService_CreateBoard_blank strings_TrimSpace_examples)
  show "fst (boardService_CreateBoard e \<lparr>repo = MemBoardRepo m\<rparr> ''  My Board  '')
      = Inr \<lparr>Board.ID = env_id e, Board.Title = ''My Board'', Board.CreatedAt = env_now e,
             Board.UpdatedAt = env_now e\<rparr>"
    by (rule boardService_CreateBoard_example)
qed

lemma BoardHandler_update_status:
  "fst (fst (BoardHandler_update e h i bind)) = 200
   \<or> fst (fst (BoardHandler_update e h i bind)) = 400"
  by (auto simp: BoardHandler_update_def split: sum.splits prod.splits)

text \<open>
  C8. The handler of \<^verbatim>\<open>PUT /boards/:id\<close> answers every error of \<open>UpdateBoard\<close> with
  status 400, the store's \<open>ErrNotFound\<close> included, where \<^verbatim>\<open>GET\<close> and \<^verbatim>\<open>DELETE\<close>
  answer 404. Here the store holds no board, and the request updates the id \<open>b9\<close> with
  a valid title: the answer is 400 with the body \<open>not found\<close>, while \<^verbatim>\<open>GET\<close> of the
  same id answers 404.
\<close>

theorem BoardHandler_update_NotFound_is_400:
  "BoardHandler_update ex_env \<lparr>BoardHandler.svc = \<lparr>repo = MemBoardRepo NewMemBoardRepo\<rparr>\<rparr>
       ''b9'' (Inr ''Sprint One'')
     = ((400, ErrorBody ''not found''),
        \<lparr>BoardHandler.svc = \<lparr>repo = MemBoardRepo NewMemBoardRepo\<rparr>\<rparr>)
   \<and> BoardHandler_get ex_env \<lparr>BoardHandler.svc = \<lparr>repo = MemBoardRepo NewMemBoardRepo\<rparr>\<rparr>
       ''b9''
     = (404, ErrorBody ''not found'')"
proof -
  have t: "strings_TrimSpace ''Sprint One'' = ''Sprint One''"
    by (simp add: strings_TrimSpace_def trimLeftSpace.simps trimRightSpace.simps
        leadingSpace_def trailingSpace_def unicode_space_def)
  have u: "memBoardRepo_Update (env_now ex_env) NewMemBoardRepo ''b9'' ''Sprint One''
      = (Inl ErrNotFound, NewMemBoardRepo)"
    by (simp add: memBoardRepo_Update_def NewMemBoardRepo_def)
  have g: "memBoardRepo_Get NewMemBoardRepo ''b9'' = Inl ErrNotFound"
    by (simp add: memBoardRepo_Get_def NewMemBoardRepo_def)
  from t u g show ?thesis
    by (simp add: BoardHandler_update_def BoardHandler_get_def boardService_UpdateBoard_def
        boardService_GetBoard_def)
qed

theorem boardService_title_trimmed_witness:
  "boardService_CreateBoard ex_env \<lparr>repo = ex_sqliteBoards\<rparr> ''  ''
     = (Inl (ErrorsNew ''title required''), \<lparr>repo = ex_sqliteBoards\<rparr>)
 \<and> boardService_UpdateBoard ex_env \<lparr>repo = ex_sqliteBoards\<rparr> ''b1'' ''  ''
     = (Inl (ErrorsNew ''title required''), \<lparr>repo = ex_sqliteBoards\<rparr>)
 \<and> fst (boardService_CreateBoard ex_env \<lparr>repo = ex_sqliteBoards\<rparr> ''  My Board  '')
     = Inr \<lparr>Board.ID = ''b2'', Board.Title = ''My Board'', Board.CreatedAt = 2000,
            Board.UpdatedAt = 2000\<rparr>
 \<and> boardService_GetBoard ex_env
       (snd (boardService_CreateBoard ex_env \<lparr>repo = ex_sqliteBoards\<rparr> ''  My Board  ''))
       ''b2''
     = Inr \<lparr>Board.ID = ''b2'', Board.Title = ''My Board'', Board.CreatedAt = 2000,
            Board.UpdatedAt = 2000\<rparr>
 \<and> boardService_GetBoard ex_env
       (snd (boardService_UpdateBoard ex_env \<lparr>repo = ex_sqliteBoards\<rparr> ''b1''
          '' Sprint One ''))
       ''b1''
     = Inr \<lparr>Board.ID = ''b1'', Board.Title = ''Sprint One'', Board.CreatedAt = 1000,
            Board.UpdatedAt = 2000\<rparr>"
proof -
  let ?s = "\<lparr>repo = ex_sqliteBoards\<rparr>"
  let ?b2 = "\<lparr>Board.ID = ''b2'', Board.Title = ''My Board'', Board.CreatedAt = 2000,
            Board.UpdatedAt = 2000\<rparr>"
  let ?b1 = "\<lparr>Board.ID = ''b1'', Board.Title = ''Sprint One'', Board.CreatedAt = 1000,
            Board.UpdatedAt = 2000\<rparr>"
  note T = boardService_title_trimmed
  have blank: "strings_TrimSpace ''  '' = []"
    by (simp add: eval_strings)
  note B = T [where title = "''  ''" and e = ex_env and s = ?s and i = "''b1''",
      THEN conjunct1, rule_format, OF blank]
  have t2: "strings_TrimSpace ''  My Board  '' = ''My Board''"
    by (simp add: eval_strings)
  have t1: "strings_TrimSpace '' Sprint One '' = ''Sprint One''"
    by (simp add: eval_strings)
  have ne: "strings_TrimSpace ''  My Board  '' \<noteq> []"
    by (simp add: t2)
  note D = T [where title = "''  My Board  ''" and e = ex_env and s = ?s,
      THEN conjunct2, THEN conjunct1, rule_format, OF ne, THEN conjunct1]
  obtain s2 where c: "boardService_CreateBoard ex_env ?s ''  My Board  '' = (Inr ?b2, s2)"
    unfolding D
    by (simp add: t2 ex_sqliteBoards_def ex_env_def
        sqliteBoardRepo_Create_def gorm_Create_def boardRow_toModel_def Let_def)
  note C = T [where title = "''  My Board  ''" and e = ex_env and s = ?s,
      THEN conjunct2, THEN conjunct2, THEN conjunct1, rule_format, OF c]
  obtain s1 where u: "boardService_UpdateBoard ex_env ?s ''b1'' '' Sprint One ''
      = (Inr ?b1, s1)"
    by (simp add: boardService_UpdateBoard_def t1 ex_sqliteBoards_def ex_env_def
        sqliteBoardRepo_Update_def gorm_First_def gorm_Save_def boardRow_toModel_def Let_def)
  note U = T [where title = "'' Sprint One ''" and e = ex_env and s = ?s and i = "''b1''",
      THEN conjunct2, THEN conjunct2, THEN conjunct2, THEN conjunct1, rule_format, OF u]
  from B C U c u show ?thesis by simp
qed

section \<open>Properties of the authentication path\<close>

lemma jwt_NewNumericDate_bounds:
  "jwt_NewNumericDate t \<le> t \<and> t - 1000000000 < jwt_NewNumericDate t"
proof -
  have "0 \<le> t mod 1000000000 \<and> t mod 1000000000 < 1000000000" by simp
  then show ?thesis unfolding jwt_NewNumericDate_def by linarith
qed

lemma authService_issueToken_eq:
  "authService_issueToken l now s u =
     Inr (jwt_Compact l (jwt_SigningString l ''HS256'' (authService_claims now s u))
            (hmac_Sum l ''HS256'' (jwtSecret s)
               (jwt_SigningString l ''HS256'' (authService_claims now s u))))"
  by (simp add: authService_issueToken_def jwt_SignedString_def Let_def)

lemma AuthRequired_no_bearer:
  "\<not> strings_HasPrefix authz ''Bearer '' \<Longrightarrow>
   AuthRequired l secret now authz = Abort (401, ErrorBody ''missing bearer token'')"
  by (simp add: AuthRequired_def)

lemma AuthRequired_parse_error:
  assumes "strings_HasPrefix authz ''Bearer ''"
    and "jwt_ParseWithClaims l now (strings_TrimPrefix authz ''Bearer '') secret = Inl err"
  shows "AuthRequired l secret now authz = Abort (401, ErrorBody ''invalid token'')"
  using assms by (simp add: AuthRequired_def Let_def)

lemma jwt_ParseWithClaims_malformed:
  "jwt_Segments l raw = None \<Longrightarrow> \<exists>err. jwt_ParseWithClaims l now raw key = Inl err"
  by (simp add: jwt_ParseWithClaims_def)

lemma jwt_ParseWithClaims_bad_signature:
  assumes "jwt_Segments l raw = Some p"
    and "seg_signature p \<noteq> hmac_Sum l (seg_alg p) key (seg_signing p)"
  shows "\<exists>err. jwt_ParseWithClaims l now raw key = Inl err"
  using assms by (simp add: jwt_ParseWithClaims_def)

lemma jwt_ParseWithClaims_expired:
  assumes "jwt_Segments l raw = Some p"
    and "customClaims.ExpiresAt (seg_claims p) = Some ex" and "ex \<le> now"
  shows "\<exists>err. jwt_ParseWithClaims l now raw key = Inl err"
  using assms by (simp add: jwt_ParseWithClaims_def jwt_Validate_def)

lemma AuthRequired_issued:
  assumes dec: "jwt_decodes l ''HS256'' (authService_claims t0 s u) (jwtSecret s)"
    and tok: "authService_issueToken l t0 s u = Inr tok"
  shows "AuthRequired l (jwtSecret s) t (''Bearer '' @ tok) =
     (if t < jwt_NewNumericDate (t0 + tokenTTL s)
      then Next (User.ID u) (User.Email u)
      else Abort (401, ErrorBody ''invalid token''))"
proof -
  let ?c = "authService_claims t0 s u"
  let ?sstr = "jwt_SigningString l ''HS256'' ?c"
  let ?sig = "hmac_Sum l ''HS256'' (jwtSecret s) ?sstr"
  from tok have t: "tok = jwt_Compact l ?sstr ?sig"
    by (simp add: authService_issueToken_eq)
  from dec t have seg: "jwt_Segments l tok =
      Some \<lparr>seg_alg = ''HS256'', seg_claims = ?c, seg_signing = ?sstr, seg_signature = ?sig\<rparr>"
    by (simp add: jwt_decodes_def Let_def)
  have v: "jwt_Validate t ?c =
      (if t < jwt_NewNumericDate (t0 + tokenTTL s) then None
       else Some (JwtError ''token has invalid claims: token is expired''))"
    by (simp add: jwt_Validate_def authService_claims_def)
  have parse: "jwt_ParseWithClaims l t tok (jwtSecret s) =
      (if t < jwt_NewNumericDate (t0 + tokenTTL s)
       then Inr \<lparr>Method = ''HS256'', Claims = ?c, Signature = ?sig, Valid = True\<rparr>
       else Inl (JwtError ''token has invalid claims: token is expired''))"
    by (simp add: jwt_ParseWithClaims_def seg v jwt_hmacMethods_def)
  define authz where "authz = ''Bearer '' @ tok"
  have pre: "strings_HasPrefix authz ''Bearer ''"
    and trim: "strings_TrimPrefix authz ''Bearer '' = tok"
    by (simp_all add: authz_def strings_HasPrefix_def strings_TrimPrefix_def)
  have sub: "customClaims.Subject ?c = User.ID u" and em: "customClaims.Email ?c = User.Email u"
    by (simp_all add: authService_claims_def)
  have "AuthRequired l (jwtSecret s) t authz =
     (if t < jwt_NewNumericDate (t0 + tokenTTL s)
      then Next (User.ID u) (User.Email u)
      else Abort (401, ErrorBody ''invalid token''))"
    by (simp add: AuthRequired_def pre trim parse sub em Let_def)
  then show ?thesis unfolding authz_def .
qed

text \<open>
  On the in-memory store the round trip holds: when \<open>Register\<close> has succeeded, \<open>Login\<close>
  with the same email and password succeeds, given that bcrypt accepts the password for
  the hash it made of it; and the middleware accepts the token before it expires, given
  that the jwt library decodes it, with the id of the registered user as the subject.
\<close>

lemma authService_Register_mem:
  assumes mem: "authService.users s = MemUserRepo m"
    and reg: "authService_Register l e salt t0 s email0 password = (Inr (u, tok), s')"
  obtains h m' where
    "strings_TrimSpace (strings_ToLower (unicode_ToLower l) email0) \<noteq> []"
    "password \<noteq> []"
    "bcrypt_GenerateFromPassword l salt password = Inr h"
    "emailIdx m (strings_TrimSpace (strings_ToLower (unicode_ToLower l) email0)) = None"
    "u = \<lparr>User.ID = env_id e,
          User.Email = strings_TrimSpace (strings_ToLower (unicode_ToLower l) email0),
          User.PasswordHash = h, User.CreatedAt = env_now e\<rparr>"
    "m' = m\<lparr>memUserRepo.users := (memUserRepo.users m)(env_id e \<mapsto> u),
            emailIdx := (emailIdx m)
              (strings_TrimSpace (strings_ToLower (unicode_ToLower l) email0) \<mapsto> env_id e)\<rparr>"
    "s' = s\<lparr>authService.users := MemUserRepo m'\<rparr>"
proof -
  let ?email = "strings_TrimSpace (strings_ToLower (unicode_ToLower l) email0)"
  from reg have ne: "?email \<noteq> []" "password \<noteq> []"
    by (auto simp: authService_Register_def Let_def split: if_splits)
  with reg obtain h where h: "bcrypt_GenerateFromPassword l salt password = Inr h"
    by (auto simp: authService_Register_def Let_def split: sum.splits)
  from reg ne h mem obtain m' where
    c: "memUserRepo_Create (env_id e) (env_now e) m ?email h = (Inr u, m')"
    and s': "s' = s\<lparr>authService.users := MemUserRepo m'\<rparr>"
    by (auto simp: authService_Register_def Let_def split: sum.splits prod.splits)
  from c have free: "emailIdx m ?email = None"
    by (cases "emailIdx m ?email") (simp_all add: memUserRepo_Create_taken)
  from c free have u: "u = \<lparr>User.ID = env_id e, User.Email = ?email,
          User.PasswordHash = h, User.CreatedAt = env_now e\<rparr>"
    and m': "m' = m\<lparr>memUserRepo.users := (memUserRepo.users m)(env_id e \<mapsto> u),
            emailIdx := (emailIdx m)(?email \<mapsto> env_id e)\<rparr>"
    by (auto simp: memUserRepo_Create_free)
  from ne h free u m' s' that show ?thesis by blast
qed

lemma authService_Register_Login_roundtrip_mem:
  assumes mem: "authService.users s = MemUserRepo m"
    and reg: "authService_Register l e salt t0 s email0 password = (Inr (u, tok), s')"
    and bcrypt: "\<forall>h. bcrypt_GenerateFromPassword l salt password = Inr h \<longrightarrow>
                   bcrypt_CompareHashAndPassword l h password = None"
    and dec: "jwt_decodes l ''HS256'' (authService_claims t1 s' u) (jwtSecret s')"
    and live: "t < jwt_NewNumericDate (t1 + tokenTTL s')"
  shows "\<exists>tok'. authService_Login l e' t1 s' email0 password = Inr (u, tok')
           \<and> AuthRequired l (jwtSecret s') t (''Bearer '' @ tok')
               = Next (User.ID u) (User.Email u)"
proof -
  let ?email = "strings_TrimSpace (strings_ToLower (unicode_ToLower l) email0)"
  from mem reg obtain h m' where
    h: "bcrypt_GenerateFromPassword l salt password = Inr h"
    and u: "u = \<lparr>User.ID = env_id e, User.Email = ?email,
          User.PasswordHash = h, User.CreatedAt = env_now e\<rparr>"
    and m': "m' = m\<lparr>memUserRepo.users := (memUserRepo.users m)(env_id e \<mapsto> u),
            emailIdx := (emailIdx m)(?email \<mapsto> env_id e)\<rparr>"
    and s': "s' = s\<lparr>authService.users := MemUserRepo m'\<rparr>"
    by (rule authService_Register_mem)
  from m' have get: "memUserRepo_GetByEmail m' ?email = Inr u"
    by (simp add: memUserRepo_GetByEmail_def)
  from bcrypt h u have ok: "bcrypt_CompareHashAndPassword l (User.PasswordHash u) password = None"
    by simp
  obtain tok' where tok': "authService_issueToken l t1 s' u = Inr tok'"
    by (simp add: authService_issueToken_eq)
  from get ok tok' s' have login: "authService_Login l e' t1 s' email0 password = Inr (u, tok')"
    by (simp add: authService_Login_def Let_def)
  from AuthRequired_issued [OF dec tok', of t] live
  have "AuthRequired l (jwtSecret s') t (''Bearer '' @ tok') = Next (User.ID u) (User.Email u)"
    by simp
  with login show ?thesis by blast
qed

text \<open>
  C3. The round trip holds on the in-memory store
  (\<open>authService_Register_Login_roundtrip_mem\<close>) and fails on the SQLite store, for the
  reason of C1: \<open>Create\<close> accepts an email that is already stored, and \<open>GetByEmail\<close>
  then returns the row with the least id. Here the store holds a user with the email
  \<open>alice@example.com\<close> and the password \<open>secret1\<close>. \<open>Register\<close> with that email and
  the password \<open>secret2\<close> succeeds; \<open>Login\<close> with the same email and password then
  fails with \<open>invalid credentials\<close>, because it compares \<open>secret2\<close> with the hash of the
  first user.
\<close>

theorem authService_Register_then_Login_fails_on_sqlite:
  "authService_Register (stub_lib []) ex_env2 ''s2'' 2000 ex_sqliteAuth
       ''alice@example.com'' ''secret2''
     = (Inr (ex_user2, ''HS256.u2.HS256/dev-secret/HS256.u2''), ex_sqliteAuth2)
   \<and> authService_Login (stub_lib []) ex_env2 3000 ex_sqliteAuth2
       ''alice@example.com'' ''secret2''
     = Inl (ErrorsNew ''invalid credentials'')"
proof
  show "authService_Register (stub_lib []) ex_env2 ''s2'' 2000 ex_sqliteAuth
       ''alice@example.com'' ''secret2''
     = (Inr (ex_user2, ''HS256.u2.HS256/dev-secret/HS256.u2''), ex_sqliteAuth2)"
    by (simp add: authService_Register_def eval_strings stub_lib_def ex_sqliteAuth_def
        ex_sqliteUsers_def ex_env2_def sqliteUserRep_Create_def gorm_Create_def ex_userRow_def
        userRow_toModel_def ex_user2_def ex_sqliteAuth2_def authService_issueToken_def
        jwt_SignedString_def authService_claims_def Let_def)
  show "authService_Login (stub_lib []) ex_env2 3000 ex_sqliteAuth2
       ''alice@example.com'' ''secret2''
     = Inl (ErrorsNew ''invalid credentials'')"
    by (simp add: authService_Login_def eval_strings stub_lib_def ex_sqliteAuth2_def
        ex_env2_def sqliteUserRep_GetByEmail_def gorm_First_def ex_userRow_def
        userRow_toModel_def)
qed

text \<open>
  At the HTTP surface: a second \<^verbatim>\<open>POST /auth/register\<close> with a stored email (in other
  capitals) is answered 409 over the in-memory store and 201 over the SQLite store.
\<close>

lemma AuthHandler_register_stored_email:
  "fst (AuthHandler_register (stub_lib []) ex_env2 ''s2'' 2000 \<lparr>AuthHandler.svc = ex_memAuth\<rparr>
      (Inr (''Alice@Example.com'', ''secret2'')))
     = (409, ErrorBody ''user already exists'')"
  "fst (AuthHandler_register (stub_lib []) ex_env2 ''s2'' 2000 \<lparr>AuthHandler.svc = ex_sqliteAuth\<rparr>
      (Inr (''Alice@Example.com'', ''secret2'')))
     = (201, AuthData ''u2'' ''alice@example.com'' 2000 ''HS256.u2.HS256/dev-secret/HS256.u2'')"
proof -
  have n: "strings_TrimSpace (strings_ToLower (unicode_ToLower (stub_lib []))
      ''Alice@Example.com'') = ''alice@example.com''"
    by (simp add: eval_strings stub_lib_def)
  have g: "bcrypt_GenerateFromPassword (stub_lib []) ''s2'' ''secret2'' = Inr ''s2$secret2''"
    by (simp add: stub_lib_def)
  have m: "authService_Register (stub_lib []) ex_env2 ''s2'' 2000 ex_memAuth
      ''Alice@Example.com'' ''secret2'' = (Inl ErrUserExists, ex_memAuth)"
    by (simp add: authService_Register_def n g Let_def ex_memAuth_def ex_memUsers_def
        memUserRepo_Create_def)
  show "fst (AuthHandler_register (stub_lib []) ex_env2 ''s2'' 2000
      \<lparr>AuthHandler.svc = ex_memAuth\<rparr> (Inr (''Alice@Example.com'', ''secret2'')))
     = (409, ErrorBody ''user already exists'')"
    by (simp add: AuthHandler_register_def m strings_Contains_def)
  have q: "authService_Register (stub_lib []) ex_env2 ''s2'' 2000 ex_sqliteAuth
      ''Alice@Example.com'' ''secret2''
     = (Inr (ex_user2, ''HS256.u2.HS256/dev-secret/HS256.u2''), ex_sqliteAuth2)"
    by (simp add: authService_Register_def eval_strings Let_def ex_sqliteAuth_def
        ex_sqliteUsers_def ex_env2_def sqliteUserRep_Create_def gorm_Create_def ex_userRow_def
        userRow_toModel_def ex_user2_def ex_sqliteAuth2_def authService_issueToken_eq
        authService_claims_def stub_lib_def)
  show "fst (AuthHandler_register (stub_lib []) ex_env2 ''s2'' 2000
      \<lparr>AuthHandler.svc = ex_sqliteAuth\<rparr> (Inr (''Alice@Example.com'', ''secret2'')))
     = (201, AuthData ''u2'' ''alice@example.com'' 2000 ''HS256.u2.HS256/dev-secret/HS256.u2'')"
    by (simp add: AuthHandler_register_def q ex_user2_def)
qed

text \<open>
  C7. The middleware answers 401 \<open>missing bearer token\<close> when the header does not start
  with \<open>Bearer \<close>, and 401 \<open>invalid token\<close> when the rest of the header does not decode,
  when its signature is not the HMAC of its signing string under the secret (by the
  method its header names), and when its expiry time is not after the present time. A
  token issued at \<open>t0\<close> with lifetime \<open>tokenTTL s\<close> carries as its expiry time
  \<open>t0 + tokenTTL s\<close> rounded down to a whole second; the middleware, with the same
  secret, accepts it at every time before that instant, passing on the id and email of
  the user, and rejects it at that instant and at every later time, hence at every time
  after \<open>t0 + tokenTTL s\<close>. (The rounded instant is at most one second before
  \<open>t0 + tokenTTL s\<close>.)
\<close>

theorem AuthRequired_verdicts:
  "(\<not> strings_HasPrefix authz ''Bearer '' \<longrightarrow>
      AuthRequired l secret now authz = Abort (401, ErrorBody ''missing bearer token''))
 \<and> (strings_HasPrefix authz ''Bearer ''
      \<and> jwt_Segments l (strings_TrimPrefix authz ''Bearer '') = None \<longrightarrow>
      AuthRequired l secret now authz = Abort (401, ErrorBody ''invalid token''))
 \<and> (\<forall>p. strings_HasPrefix authz ''Bearer ''
      \<and> jwt_Segments l (strings_TrimPrefix authz ''Bearer '') = Some p
      \<and> seg_signature p \<noteq> hmac_Sum l (seg_alg p) secret (seg_signing p) \<longrightarrow>
      AuthRequired l secret now authz = Abort (401, ErrorBody ''invalid token''))
 \<and> (\<forall>p ex. strings_HasPrefix authz ''Bearer ''
      \<and> jwt_Segments l (strings_TrimPrefix authz ''Bearer '') = Some p
      \<and> customClaims.ExpiresAt (seg_claims p) = Some ex \<and> ex \<le> now \<longrightarrow>
      AuthRequired l secret now authz = Abort (401, ErrorBody ''invalid token''))
 \<and> (jwt_decodes l ''HS256'' (authService_claims t0 s u) (jwtSecret s)
      \<and> authService_issueToken l t0 s u = Inr tok \<longrightarrow>
      (t < jwt_NewNumericDate (t0 + tokenTTL s) \<longrightarrow>
         AuthRequired l (jwtSecret s) t (''Bearer '' @ tok)
           = Next (User.ID u) (User.Email u))
    \<and> (jwt_NewNumericDate (t0 + tokenTTL s) \<le> t \<longrightarrow>
         AuthRequired l (jwtSecret s) t (''Bearer '' @ tok)
           = Abort (401, ErrorBody ''invalid token''))
    \<and> (t0 + tokenTTL s < t \<longrightarrow>
         AuthRequired l (jwtSecret s) t (''Bearer '' @ tok)
           = Abort (401, ErrorBody ''invalid token'')))
 \<and> jwt_NewNumericDate (t0 + tokenTTL s) \<le> t0 + tokenTTL s
 \<and> t0 + tokenTTL s - 1000000000 < jwt_NewNumericDate (t0 + tokenTTL s)"
proof (intro conjI)
  show "\<not> strings_HasPrefix authz ''Bearer '' \<longrightarrow>
      AuthRequired l secret now authz = Abort (401, ErrorBody ''missing bearer token'')"
    by (simp add: AuthRequired_no_bearer)
  show "strings_HasPrefix authz ''Bearer ''
      \<and> jwt_Segments l (strings_TrimPrefix authz ''Bearer '') = None \<longrightarrow>
      AuthRequired l secret now authz = Abort (401, ErrorBody ''invalid token'')"
    using jwt_ParseWithClaims_malformed AuthRequired_parse_error by blast
  show "\<forall>p. strings_HasPrefix authz ''Bearer ''
      \<and> jwt_Segments l (strings_TrimPrefix authz ''Bearer '') = Some p
      \<and> seg_signature p \<noteq> hmac_Sum l (seg_alg p) secret (seg_signing p) \<longrightarrow>
      AuthRequired l secret now authz = Abort (401, ErrorBody ''invalid token'')"
    using jwt_ParseWithClaims_bad_signature AuthRequired_parse_error by blast
  show "\<forall>p ex. strings_HasPrefix authz ''Bearer ''
      \<and> jwt_Segments l (strings_TrimPrefix authz ''Bearer '') = Some p
      \<and> customClaims.ExpiresAt (seg_claims p) = Some ex \<and> ex \<le> now \<longrightarrow>
      AuthRequired l secret now authz = Abort (401, ErrorBody ''invalid token'')"
    using jwt_ParseWithClaims_expired AuthRequired_parse_error by blast
  show "jwt_decodes l ''HS256'' (authService_claims t0 s u) (jwtSecret s)
      \<and> authService_issueToken l t0 s u = Inr tok \<longrightarrow>
      (t < jwt_NewNumericDate (t0 + tokenTTL s) \<longrightarrow>
         AuthRequired l (jwtSecret s) t (''Bearer '' @ tok)
           = Next (User.ID u) (User.Email u))
    \<and> (jwt_NewNumericDate (t0 + tokenTTL s) \<le> t \<longrightarrow>
         AuthRequired l (jwtSecret s) t (''Bearer '' @ tok)
           = Abort (401, ErrorBody ''invalid token''))
    \<and> (t0 + tokenTTL s < t \<longrightarrow>
         AuthRequired l (jwtSecret s) t (''Bearer '' @ tok)
           = Abort (401, ErrorBody ''invalid token''))"
  proof (intro impI)
    assume a: "jwt_decodes l ''HS256'' (authService_claims t0 s u) (jwtSecret s)
      \<and> authService_issueToken l t0 s u = Inr tok"
    then have dec: "jwt_decodes l ''HS256'' (authService_claims t0 s u) (jwtSecret s)"
      and tok: "authService_issueToken l t0 s u = Inr tok"
      by simp_all
    have v: "AuthRequired l (jwtSecret s) t (''Bearer '' @ tok) =
       (if t < jwt_NewNumericDate (t0 + tokenTTL s)
        then Next (User.ID u) (User.Email u)
        else Abort (401, ErrorBody ''invalid token''))"
      using dec tok by (rule AuthRequired_issued)
    have late: "\<not> t < jwt_NewNumericDate (t0 + tokenTTL s)" if "t0 + tokenTTL s < t"
      using that jwt_NewNumericDate_bounds [of "t0 + tokenTTL s"] by linarith
    from v late show "(t < jwt_NewNumericDate (t0 + tokenTTL s) \<longrightarrow>
         AuthRequired l (jwtSecret s) t (''Bearer '' @ tok)
           = Next (User.ID u) (User.Email u))
    \<and> (jwt_NewNumericDate (t0 + tokenTTL s) \<le> t \<longrightarrow>
         AuthRequired l (jwtSecret s) t (''Bearer '' @ tok)
           = Abort (401, ErrorBody ''invalid token''))
    \<and> (t0 + tokenTTL s < t \<longrightarrow>
         AuthRequired l (jwtSecret s) t (''Bearer '' @ tok)
           = Abort (401, ErrorBody ''invalid token''))"
      by simp
  qed
  show "jwt_NewNumericDate (t0 + tokenTTL s) \<le> t0 + tokenTTL s"
    by (simp add: jwt_NewNumericDate_bounds)
  show "t0 + tokenTTL s - 1000000000 < jwt_NewNumericDate (t0 + tokenTTL s)"
    by (simp add: jwt_NewNumericDate_bounds)
qed

lemmas eval_ex_token = ex_lib_def stub_lib_def authService_claims_def ex_shortAuth_def
  ex_user_def ex_token_def

theorem AuthRequired_verdicts_witness:
  "AuthRequired ex_lib ''dev-secret'' 900000000 [] =
     Abort (401, ErrorBody ''missing bearer token'')
 \<and> AuthRequired ex_lib ''dev-secret'' 900000000 ''Bearer x.y.z'' =
     Abort (401, ErrorBody ''invalid token'')
 \<and> AuthRequired ex_lib ''other-secret'' 900000000 (''Bearer '' @ ex_token) =
     Abort (401, ErrorBody ''invalid token'')
 \<and> AuthRequired ex_lib ''dev-secret'' 1000000000 (''Bearer '' @ ex_token) =
     Abort (401, ErrorBody ''invalid token'')
 \<and> AuthRequired ex_lib (jwtSecret ex_shortAuth) 900000000 (''Bearer '' @ ex_token) =
     Next ''u1'' ''alice@example.com''
 \<and> AuthRequired ex_lib (jwtSecret ex_shortAuth) 1800000000 (''Bearer '' @ ex_token) =
     Abort (401, ErrorBody ''invalid token'')"
proof -
  let ?segs = "\<lparr>seg_alg = ''HS256'',
        seg_claims = authService_claims 700000000 ex_shortAuth ex_user,
        seg_signing = ''HS256.u1'',
        seg_signature = ''HS256/dev-secret/HS256.u1''\<rparr>"
  have pre: "strings_HasPrefix (''Bearer '' @ ex_token) ''Bearer ''"
    "strings_HasPrefix ''Bearer x.y.z'' ''Bearer ''"
    "\<not> strings_HasPrefix [] ''Bearer ''"
    by (simp_all add: strings_HasPrefix_def)
  have seg: "jwt_Segments ex_lib (strings_TrimPrefix (''Bearer '' @ ex_token) ''Bearer '')
      = Some ?segs"
    by (simp add: strings_TrimPrefix_def strings_HasPrefix_def ex_lib_def stub_lib_def)
  have bad: "jwt_Segments ex_lib (strings_TrimPrefix ''Bearer x.y.z'' ''Bearer '') = None"
    by (simp add: strings_TrimPrefix_def strings_HasPrefix_def ex_lib_def stub_lib_def
        ex_token_def)
  have sig: "seg_signature ?segs \<noteq> hmac_Sum ex_lib (seg_alg ?segs) ''other-secret''
      (seg_signing ?segs)"
    by (simp add: ex_lib_def stub_lib_def)
  have ex: "customClaims.ExpiresAt (seg_claims ?segs) = Some 1000000000"
    by (simp add: authService_claims_def ex_shortAuth_def jwt_NewNumericDate_def)
  have dec: "jwt_decodes ex_lib ''HS256'' (authService_claims 700000000 ex_shortAuth ex_user)
      (jwtSecret ex_shortAuth)"
    by (simp add: jwt_decodes_def eval_ex_token)
  have tok: "authService_issueToken ex_lib 700000000 ex_shortAuth ex_user = Inr ex_token"
    by (simp add: authService_issueToken_def jwt_SignedString_def eval_ex_token)
  have cut: "jwt_NewNumericDate (700000000 + tokenTTL ex_shortAuth) = 1000000000"
    by (simp add: jwt_NewNumericDate_def ex_shortAuth_def)
  have u: "User.ID ex_user = ''u1''" "User.Email ex_user = ''alice@example.com''"
    by (simp_all add: ex_user_def)
  note T = AuthRequired_verdicts
  from T [where authz = "[]" and l = ex_lib and secret = "''dev-secret''" and now = 900000000]
    pre(3)
  have 1: "AuthRequired ex_lib ''dev-secret'' 900000000 [] =
     Abort (401, ErrorBody ''missing bearer token'')"
    by blast
  from T [where authz = "''Bearer x.y.z''" and l = ex_lib and secret = "''dev-secret''"
      and now = 900000000] pre(2) bad
  have 2: "AuthRequired ex_lib ''dev-secret'' 900000000 ''Bearer x.y.z'' =
     Abort (401, ErrorBody ''invalid token'')"
    by blast
  from T [where authz = "''Bearer '' @ ex_token" and l = ex_lib
      and secret = "''other-secret''" and now = 900000000] pre(1) seg sig
  have 3: "AuthRequired ex_lib ''other-secret'' 900000000 (''Bearer '' @ ex_token) =
     Abort (401, ErrorBody ''invalid token'')"
    by blast
  have le: "(1000000000::int) \<le> 1000000000" by simp
  from T [where authz = "''Bearer '' @ ex_token" and l = ex_lib
      and secret = "''dev-secret''" and now = 1000000000] pre(1) seg ex le
  have 4: "AuthRequired ex_lib ''dev-secret'' 1000000000 (''Bearer '' @ ex_token) =
     Abort (401, ErrorBody ''invalid token'')"
    by blast
  have early: "(900000000::int) < jwt_NewNumericDate (700000000 + tokenTTL ex_shortAuth)"
    by (simp add: cut)
  from T [where l = ex_lib and ?t0.0 = 700000000 and s = ex_shortAuth and u = ex_user
      and tok = ex_token and t = 900000000] dec tok early u
  have 5: "AuthRequired ex_lib (jwtSecret ex_shortAuth) 900000000 (''Bearer '' @ ex_token) =
     Next ''u1'' ''alice@example.com''"
    by simp
  have after: "700000000 + tokenTTL ex_shortAuth < (1800000000::int)"
    by (simp add: ex_shortAuth_def)
  from T [where l = ex_lib and ?t0.0 = 700000000 and s = ex_shortAuth and u = ex_user
      and tok = ex_token and t = 1800000000] dec tok after
  have 6: "AuthRequired ex_lib (jwtSecret ex_shortAuth) 1800000000 (''Bearer '' @ ex_token) =
     Abort (401, ErrorBody ''invalid token'')"
    by simp
  from 1 2 3 4 5 6 show ?thesis by simp
qed

text \<open>
  The claim as it is written fails between the rounded instant and \<open>t0 + tokenTTL s\<close>:
  a token issued at 0.7 s with a lifetime of one second expires at 1 s, not at 1.7 s,
  and the middleware rejects it at 1.5 s.
\<close>

theorem AuthRequired_before_TTL_counterexample:
  "authService_issueToken ex_lib 700000000 ex_shortAuth ex_user = Inr ex_token
 \<and> jwt_decodes ex_lib ''HS256'' (authService_claims 700000000 ex_shortAuth ex_user)
      (jwtSecret ex_shortAuth)
 \<and> (1500000000 :: int) < 700000000 + tokenTTL ex_shortAuth
 \<and> AuthRequired ex_lib (jwtSecret ex_shortAuth) 1500000000 (''Bearer '' @ ex_token)
      = Abort (401, ErrorBody ''invalid token'')"
proof (intro conjI)
  show "authService_issueToken ex_lib 700000000 ex_shortAuth ex_user = Inr ex_token"
    by (simp add: authService_issueToken_def jwt_SignedString_def eval_ex_token)
  show "jwt_decodes ex_lib ''HS256'' (authService_claims 700000000 ex_shortAuth ex_user)
      (jwtSecret ex_shortAuth)"
    by (simp add: jwt_decodes_def eval_ex_token)
  show "(1500000000 :: int) < 700000000 + tokenTTL ex_shortAuth"
    by (simp add: ex_shortAuth_def)
  show "AuthRequired ex_lib (jwtSecret ex_shortAuth) 1500000000 (''Bearer '' @ ex_token)
      = Abort (401, ErrorBody ''invalid token'')"
    by (simp add: AuthRequired_def strings_HasPrefix_def strings_TrimPrefix_def
        jwt_ParseWithClaims_def jwt_Validate_def jwt_hmacMethods_def jwt_NewNumericDate_def
        eval_ex_token)
qed

text \<open>
  The middleware does not ask for HS256: the parser verifies with the HMAC method that
  the header of the token names, so a token signed under the secret with HS512 passes.
\<close>

lemma AuthRequired_accepts_other_HMAC:
  "AuthRequired ex_lib512 ''dev-secret'' 900000000 (''Bearer '' @ ex_token512)
     = Next ''u1'' ''alice@example.com''"
  by (simp add: AuthRequired_def strings_HasPrefix_def strings_TrimPrefix_def
      jwt_ParseWithClaims_def jwt_Validate_def jwt_hmacMethods_def jwt_NewNumericDate_def
      ex_lib512_def ex_token512_def stub_lib_def authService_claims_def ex_shortAuth_def
      ex_user_def)

section \<open>Email keys of the in-memory User Store\<close>

lemma memUserRepo_GetByEmail_NotFound_iff:
  "memUserRepo_GetByEmail r email = Inl ErrNotFound \<longleftrightarrow> emailIdx r email = None"
  by (simp add: memUserRepo_GetByEmail_def split: option.splits)

lemma memUserRepo_Create_two_cases:
  assumes a: "emailIdx r ''A@x.com'' = None" and b: "emailIdx r ''a@x.com'' = None"
    and ne: "id1 \<noteq> id2"
  shows "\<exists>u1 r1 u2 r2.
      memUserRepo_Create id1 t1 r ''A@x.com'' h1 = (Inr u1, r1)
    \<and> memUserRepo_Create id2 t2 r1 ''a@x.com'' h2 = (Inr u2, r2)
    \<and> memUserRepo_GetByEmail r2 ''A@x.com'' = Inr u1
    \<and> memUserRepo_GetByEmail r2 ''a@x.com'' = Inr u2
    \<and> User.Email u1 = ''A@x.com'' \<and> User.Email u2 = ''a@x.com''
    \<and> memUserRepo_GetByID r2 id1 = Inr u1 \<and> memUserRepo_GetByID r2 id2 = Inr u2"
proof -
  let ?u1 = "\<lparr>User.ID = id1, User.Email = ''A@x.com'', User.PasswordHash = h1,
      User.CreatedAt = t1\<rparr>"
  let ?r1 = "r\<lparr>memUserRepo.users := (memUserRepo.users r)(id1 \<mapsto> ?u1),
      emailIdx := (emailIdx r)(''A@x.com'' \<mapsto> id1)\<rparr>"
  let ?u2 = "\<lparr>User.ID = id2, User.Email = ''a@x.com'', User.PasswordHash = h2,
      User.CreatedAt = t2\<rparr>"
  let ?r2 = "?r1\<lparr>memUserRepo.users := (memUserRepo.users ?r1)(id2 \<mapsto> ?u2),
      emailIdx := (emailIdx ?r1)(''a@x.com'' \<mapsto> id2)\<rparr>"
  from a have c1: "memUserRepo_Create id1 t1 r ''A@x.com'' h1 = (Inr ?u1, ?r1)"
    by (rule memUserRepo_Create_free)
  from b have "emailIdx ?r1 ''a@x.com'' = None" by simp
  then have c2: "memUserRepo_Create id2 t2 ?r1 ''a@x.com'' h2 = (Inr ?u2, ?r2)"
    by (rule memUserRepo_Create_free)
  have g1: "memUserRepo_GetByEmail ?r2 ''A@x.com'' = Inr ?u1"
    using ne by (simp add: memUserRepo_GetByEmail_def)
  have g2: "memUserRepo_GetByEmail ?r2 ''a@x.com'' = Inr ?u2"
    by (simp add: memUserRepo_GetByEmail_def)
  have i1: "memUserRepo_GetByID ?r2 id1 = Inr ?u1"
    using ne by (simp add: memUserRepo_GetByID_def)
  have i2: "memUserRepo_GetByID ?r2 id2 = Inr ?u2"
    by (simp add: memUserRepo_GetByID_def)
  have e: "User.Email ?u1 = ''A@x.com''" "User.Email ?u2 = ''a@x.com''" by simp_all
  from c1 c2 g1 g2 e i1 i2 show ?thesis by blast
qed

lemma memUserRepo_Create_key:
  assumes "memUserRepo_Create newID now r email pw = (Inr u, r')"
  shows "memUserRepo_GetByEmail r' email = Inr u
       \<and> (\<forall>email'. email' \<noteq> email \<longrightarrow>
            (memUserRepo_GetByEmail r' email' = Inl ErrNotFound
               \<longleftrightarrow> memUserRepo_GetByEmail r email' = Inl ErrNotFound))"
proof -
  from assms have free: "emailIdx r email = None"
    by (cases "emailIdx r email") (simp_all add: memUserRepo_Create_taken)
  with assms have u: "u = \<lparr>User.ID = newID, User.Email = email, User.PasswordHash = pw,
          User.CreatedAt = now\<rparr>"
    and r': "r' = r\<lparr>memUserRepo.users := (memUserRepo.users r)(newID \<mapsto> u),
            emailIdx := (emailIdx r)(email \<mapsto> newID)\<rparr>"
    by (auto simp: memUserRepo_Create_free)
  from r' have "memUserRepo_GetByEmail r' email = Inr u"
    by (simp add: memUserRepo_GetByEmail_def)
  moreover from r' have "\<forall>email'. email' \<noteq> email \<longrightarrow>
            (memUserRepo_GetByEmail r' email' = Inl ErrNotFound
               \<longleftrightarrow> memUserRepo_GetByEmail r email' = Inl ErrNotFound)"
    by (simp add: memUserRepo_GetByEmail_NotFound_iff)
  ultimately show ?thesis by blast
qed

lemma authService_Register_taken_mem:
  assumes mem: "authService.users s = MemUserRepo m"
    and reg: "authService_Register l e salt t s email1 pw1 = (Inr (u, tok), s')"
    and same: "strings_TrimSpace (strings_ToLower (unicode_ToLower l) email2)
             = strings_TrimSpace (strings_ToLower (unicode_ToLower l) email1)"
    and pw: "pw2 \<noteq> []"
    and h2: "bcrypt_GenerateFromPassword l salt2 pw2 = Inr h2"
  shows "authService_Register l e2 salt2 t2 s' email2 pw2 = (Inl ErrUserExists, s')"
proof -
  let ?email = "strings_TrimSpace (strings_ToLower (unicode_ToLower l) email1)"
  from mem reg obtain h m' where ne: "?email \<noteq> []"
    and m': "m' = m\<lparr>memUserRepo.users := (memUserRepo.users m)(env_id e \<mapsto> u),
            emailIdx := (emailIdx m)(?email \<mapsto> env_id e)\<rparr>"
    and s': "s' = s\<lparr>authService.users := MemUserRepo m'\<rparr>"
    by (rule authService_Register_mem)
  from m' have "emailIdx m' ?email = Some (env_id e)" by simp
  then have "memUserRepo_Create (env_id e2) (env_now e2) m' ?email h2 = (Inl ErrUserExists, m')"
    by (rule memUserRepo_Create_taken)
  with s' ne same pw h2 show ?thesis
    by (simp add: authService_Register_def Let_def)
qed

text \<open>
  C10. The in-memory User Store compares emails as they are: from a store that holds
  neither, \<open>Create\<close> with \<open>A@x.com\<close> and then with \<open>a@x.com\<close> (under two ids) both
  succeed, and each user is then found under its own spelling. After a \<open>Create\<close> the
  user is found under the email of the call, and any other string is found exactly when
  it was found before. Through the Auth Service, which lowercases and trims first, a
  second \<open>Register\<close> whose email normalizes to that of a registered user fails with
  \<open>ErrUserExists\<close>.
\<close>

theorem memUserRepo_exact_email_keys:
  "(emailIdx r ''A@x.com'' = None \<and> emailIdx r ''a@x.com'' = None \<and> id1 \<noteq> id2 \<longrightarrow>
      (\<exists>u1 r1 u2 r2.
          memUserRepo_Create id1 t1 r ''A@x.com'' h1 = (Inr u1, r1)
        \<and> memUserRepo_Create id2 t2 r1 ''a@x.com'' h2 = (Inr u2, r2)
        \<and> memUserRepo_GetByEmail r2 ''A@x.com'' = Inr u1
        \<and> memUserRepo_GetByEmail r2 ''a@x.com'' = Inr u2
        \<and> User.Email u1 = ''A@x.com'' \<and> User.Email u2 = ''a@x.com''
        \<and> memUserRepo_GetByID r2 id1 = Inr u1 \<and> memUserRepo_GetByID r2 id2 = Inr u2))
 \<and> (\<forall>u r'. memUserRepo_Create newID now r email pw = (Inr u, r') \<longrightarrow>
        memUserRepo_GetByEmail r' email = Inr u
      \<and> (\<forall>email'. email' \<noteq> email \<longrightarrow>
            (memUserRepo_GetByEmail r' email' = Inl ErrNotFound
               \<longleftrightarrow> memUserRepo_GetByEmail r email' = Inl ErrNotFound)))
 \<and> (authService.users s = MemUserRepo m
      \<and> authService_Register l e salt t s email1 pw1 = (Inr (u, tok), s')
      \<and> strings_TrimSpace (strings_ToLower (unicode_ToLower l) email2)
          = strings_TrimSpace (strings_ToLower (unicode_ToLower l) email1)
      \<and> pw2 \<noteq> [] \<and> bcrypt_GenerateFromPassword l salt2 pw2 = Inr h \<longrightarrow>
      authService_Register l e2 salt2 t3 s' email2 pw2 = (Inl ErrUserExists, s'))"
proof (intro conjI)
  show "emailIdx r ''A@x.com'' = None \<and> emailIdx r ''a@x.com'' = None \<and> id1 \<noteq> id2 \<longrightarrow>
      (\<exists>u1 r1 u2 r2.
          memUserRepo_Create id1 t1 r ''A@x.com'' h1 = (Inr u1, r1)
        \<and> memUserRepo_Create id2 t2 r1 ''a@x.com'' h2 = (Inr u2, r2)
        \<and> memUserRepo_GetByEmail r2 ''A@x.com'' = Inr u1
        \<and> memUserRepo_GetByEmail r2 ''a@x.com'' = Inr u2
        \<and> User.Email u1 = ''A@x.com'' \<and> User.Email u2 = ''a@x.com''
        \<and> memUserRepo_GetByID r2 id1 = Inr u1 \<and> memUserRepo_GetByID r2 id2 = Inr u2)"
    using memUserRepo_Create_two_cases by blast
  show "\<forall>u r'. memUserRepo_Create newID now r email pw = (Inr u, r') \<longrightarrow>
        memUserRepo_GetByEmail r' email = Inr u
      \<and> (\<forall>email'. email' \<noteq> email \<longrightarrow>
            (memUserRepo_GetByEmail r' email' = Inl ErrNotFound
               \<longleftrightarrow> memUserRepo_GetByEmail r email' = Inl ErrNotFound))"
    using memUserRepo_Create_key by blast
  show "authService.users s = MemUserRepo m
      \<and> authService_Register l e salt t s email1 pw1 = (Inr (u, tok), s')
      \<and> strings_TrimSpace (strings_ToLower (unicode_ToLower l) email2)
          = strings_TrimSpace (strings_ToLower (unicode_ToLower l) email1)
      \<and> pw2 \<noteq> [] \<and> bcrypt_GenerateFromPassword l salt2 pw2 = Inr h \<longrightarrow>
      authService_Register l e2 salt2 t3 s' email2 pw2 = (Inl ErrUserExists, s')"
    using authService_Register_taken_mem by blast
qed

theorem memUserRepo_exact_email_keys_witness:
  "memUserRepo_GetByEmail
      (snd (memUserRepo_Create ''u2'' 2000
         (snd (memUserRepo_Create ''u1'' 1000 NewMemUserRepo ''A@x.com'' ''h1''))
         ''a@x.com'' ''h2'')) ''A@x.com''
     = Inr \<lparr>User.ID = ''u1'', User.Email = ''A@x.com'', User.PasswordHash = ''h1'',
            User.CreatedAt = 1000\<rparr>
 \<and> memUserRepo_GetByEmail
      (snd (memUserRepo_Create ''u2'' 2000
         (snd (memUserRepo_Create ''u1'' 1000 NewMemUserRepo ''A@x.com'' ''h1''))
         ''a@x.com'' ''h2'')) ''a@x.com''
     = Inr \<lparr>User.ID = ''u2'', User.Email = ''a@x.com'', User.PasswordHash = ''h2'',
            User.CreatedAt = 2000\<rparr>
 \<and> memUserRepo_GetByEmail
      (snd (memUserRepo_Create ''u1'' 1000 NewMemUserRepo ''A@x.com'' ''h1'')) ''a@x.com''
     = Inl ErrNotFound
 \<and> fst (authService_Register (stub_lib []) ex_env ''s3'' 3000
      (snd (authService_Register (stub_lib []) ex_env2 ''s2'' 2000 ex_emptyAuth
         ''A@x.com'' ''secret2''))
      '' a@X.com'' ''secret3'')
     = Inl ErrUserExists"
proof -
  note T = memUserRepo_exact_email_keys
  let ?u1 = "\<lparr>User.ID = ''u1'', User.Email = ''A@x.com'', User.PasswordHash = ''h1'',
            User.CreatedAt = 1000\<rparr>"
  let ?u2 = "\<lparr>User.ID = ''u2'', User.Email = ''a@x.com'', User.PasswordHash = ''h2'',
            User.CreatedAt = 2000\<rparr>"
  have free: "emailIdx NewMemUserRepo ''A@x.com'' = None"
    "emailIdx NewMemUserRepo ''a@x.com'' = None" "''u1'' \<noteq> ''u2''"
    by (simp_all add: NewMemUserRepo_def)
  from T [where r = NewMemUserRepo and ?id1.0 = "''u1''" and ?id2.0 = "''u2''"
      and ?t1.0 = 1000 and ?t2.0 = 2000 and ?h1.0 = "''h1''" and ?h2.0 = "''h2''",
      THEN conjunct1] free
  obtain u1 r1 u2 r2 where
    c1: "memUserRepo_Create ''u1'' 1000 NewMemUserRepo ''A@x.com'' ''h1'' = (Inr u1, r1)"
    and c2: "memUserRepo_Create ''u2'' 2000 r1 ''a@x.com'' ''h2'' = (Inr u2, r2)"
    and g1: "memUserRepo_GetByEmail r2 ''A@x.com'' = Inr u1"
    and g2: "memUserRepo_GetByEmail r2 ''a@x.com'' = Inr u2"
    by blast
  from c1 free have u1: "u1 = ?u1" by (simp add: memUserRepo_Create_free)
  from c1 c2 free have u2: "u2 = ?u2" by (auto simp: memUserRepo_Create_free)
  have 1: "memUserRepo_GetByEmail
      (snd (memUserRepo_Create ''u2'' 2000
         (snd (memUserRepo_Create ''u1'' 1000 NewMemUserRepo ''A@x.com'' ''h1''))
         ''a@x.com'' ''h2'')) ''A@x.com'' = Inr ?u1"
    using c1 c2 g1 u1 by simp
  have 2: "memUserRepo_GetByEmail
      (snd (memUserRepo_Create ''u2'' 2000
         (snd (memUserRepo_Create ''u1'' 1000 NewMemUserRepo ''A@x.com'' ''h1''))
         ''a@x.com'' ''h2'')) ''a@x.com'' = Inr ?u2"
    using c1 c2 g2 u2 by simp
  have before: "memUserRepo_GetByEmail NewMemUserRepo ''a@x.com'' = Inl ErrNotFound"
    by (simp add: memUserRepo_GetByEmail_def NewMemUserRepo_def)
  have other: "''a@x.com'' \<noteq> ''A@x.com''" by simp
  note K = T [where r = NewMemUserRepo and newID = "''u1''" and now = 1000
      and email = "''A@x.com''" and pw = "''h1''", THEN conjunct2, THEN conjunct1,
      rule_format, OF c1, THEN conjunct2, rule_format, OF other]
  from K before
  have "memUserRepo_GetByEmail r1 ''a@x.com'' = Inl ErrNotFound" by simp
  with c1 have 3: "memUserRepo_GetByEmail
      (snd (memUserRepo_Create ''u1'' 1000 NewMemUserRepo ''A@x.com'' ''h1'')) ''a@x.com''
     = Inl ErrNotFound"
    by simp
  let ?U = "\<lparr>User.ID = ''u2'', User.Email = ''a@x.com'', User.PasswordHash = ''s2$secret2'',
            User.CreatedAt = 2000\<rparr>"
  let ?S1 = "\<lparr>authService.users =
       MemUserRepo \<lparr>memUserRepo.users = [''u2'' \<mapsto> ?U], emailIdx = [''a@x.com'' \<mapsto> ''u2'']\<rparr>,
     jwtSecret = ''dev-secret'', tokenTTL = 86400000000000\<rparr>"
  have n1: "strings_TrimSpace (strings_ToLower (unicode_ToLower (stub_lib [])) ''A@x.com'')
      = ''a@x.com''"
    by (simp add: eval_strings stub_lib_def)
  have n2: "strings_TrimSpace (strings_ToLower (unicode_ToLower (stub_lib [])) '' a@X.com'')
      = ''a@x.com''"
    by (simp add: eval_strings stub_lib_def)
  have reg: "authService_Register (stub_lib []) ex_env2 ''s2'' 2000 ex_emptyAuth
         ''A@x.com'' ''secret2'' = (Inr (?U, ''HS256.u2.HS256/dev-secret/HS256.u2''), ?S1)"
    by (simp add: authService_Register_def eval_strings Let_def ex_emptyAuth_def ex_env2_def
        NewMemUserRepo_def memUserRepo_Create_def authService_issueToken_def
        jwt_SignedString_def authService_claims_def stub_lib_def)
  have mem: "authService.users ex_emptyAuth = MemUserRepo NewMemUserRepo"
    by (simp add: ex_emptyAuth_def)
  have h: "bcrypt_GenerateFromPassword (stub_lib []) ''s3'' ''secret3'' = Inr ''s3$secret3''"
    by (simp add: stub_lib_def)
  have pw: "''secret3'' \<noteq> []" by simp
  from T [where s = ex_emptyAuth and m = NewMemUserRepo and l = "stub_lib []"
      and e = ex_env2 and salt = "''s2''" and t = 2000 and ?email1.0 = "''A@x.com''"
      and ?pw1.0 = "''secret2''" and u = ?U and tok = "''HS256.u2.HS256/dev-secret/HS256.u2''"
      and s' = ?S1 and ?email2.0 = "'' a@X.com''" and ?pw2.0 = "''secret3''"
      and ?salt2.0 = "''s3''" and h = "''s3$secret3''" and ?e2.0 = ex_env and ?t3.0 = 3000,
      THEN conjunct2, THEN conjunct2]
    mem reg n1 n2 pw h
  have "authService_Register (stub_lib []) ex_env ''s3'' 3000 ?S1 '' a@X.com'' ''secret3''
      = (Inl ErrUserExists, ?S1)"
    by simp
  with reg have 4: "fst (authService_Register (stub_lib []) ex_env ''s3'' 3000
      (snd (authService_Register (stub_lib []) ex_env2 ''s2'' 2000 ex_emptyAuth
         ''A@x.com'' ''secret2''))
      '' a@X.com'' ''secret3'') = Inl ErrUserExists"
    by simp
  from 1 2 3 4 show ?thesis by simp
qed

end
